theory Spec2Isabelle
  imports Complex_Main "HOL-Library.AList"
begin

text \<open>
  A model of the graph view component of react-digraph (\<^verbatim>\<open>src/components/graph-view.js\<close>):
  the viewport arithmetic of \<^verbatim>\<open>handleZoomToFit\<close> and \<^verbatim>\<open>modifyZoom\<close>, and the handlers that
  edit, select and redraw the graph, as functions on an explicit component state. The
  definitions follow the source function by function; the properties come after them.
\<close>

section \<open>JavaScript numbers\<close>

text \<open>
  The viewport code of \<^verbatim>\<open>graph-view.js\<close> computes with JavaScript numbers. They are
  modelled as the real numbers extended by the two infinities and NaN, with the IEEE
  rules for the operations the code uses. The operations of this section are exact: a
  finite result is the exact real result, and a division of a non-zero number by zero
  takes the sign of the dividend. The sign of zero is not modelled. The rounding of
  every finite result to a double is the subject of the next section.
\<close>

datatype jsnum = Num real | PInf | NInf | NaN

fun jneg :: "jsnum \<Rightarrow> jsnum" where
  "jneg (Num a) = Num (- a)"
| "jneg PInf = NInf"
| "jneg NInf = PInf"
| "jneg NaN = NaN"

fun jadd :: "jsnum \<Rightarrow> jsnum \<Rightarrow> jsnum" where
  "jadd (Num a) (Num b) = Num (a + b)"
| "jadd NaN _ = NaN"
| "jadd _ NaN = NaN"
| "jadd PInf NInf = NaN"
| "jadd NInf PInf = NaN"
| "jadd PInf _ = PInf"
| "jadd _ PInf = PInf"
| "jadd NInf _ = NInf"
| "jadd _ NInf = NInf"

definition jsub :: "jsnum \<Rightarrow> jsnum \<Rightarrow> jsnum" where
  "jsub a b = jadd a (jneg b)"

fun jmul :: "jsnum \<Rightarrow> jsnum \<Rightarrow> jsnum" where
  "jmul (Num a) (Num b) = Num (a * b)"
| "jmul NaN _ = NaN"
| "jmul _ NaN = NaN"
| "jmul (Num a) PInf = (if a = 0 then NaN else if 0 < a then PInf else NInf)"
| "jmul (Num a) NInf = (if a = 0 then NaN else if 0 < a then NInf else PInf)"
| "jmul PInf (Num b) = (if b = 0 then NaN else if 0 < b then PInf else NInf)"
| "jmul NInf (Num b) = (if b = 0 then NaN else if 0 < b then NInf else PInf)"
| "jmul PInf PInf = PInf"
| "jmul PInf NInf = NInf"
| "jmul NInf PInf = NInf"
| "jmul NInf NInf = PInf"

fun jdiv :: "jsnum \<Rightarrow> jsnum \<Rightarrow> jsnum" where
  "jdiv (Num a) (Num b) =
     (if b \<noteq> 0 then Num (a / b)
      else if a = 0 then NaN else if 0 < a then PInf else NInf)"
| "jdiv NaN _ = NaN"
| "jdiv _ NaN = NaN"
| "jdiv (Num a) PInf = Num 0"
| "jdiv (Num a) NInf = Num 0"
| "jdiv PInf (Num b) = (if 0 \<le> b then PInf else NInf)"
| "jdiv NInf (Num b) = (if 0 \<le> b then NInf else PInf)"
| "jdiv _ _ = NaN"

text \<open>The comparison \<^verbatim>\<open>a < b\<close>: false as soon as one side is NaN.\<close>

fun jlt :: "jsnum \<Rightarrow> jsnum \<Rightarrow> bool" where
  "jlt (Num a) (Num b) = (a < b)"
| "jlt NaN _ = False"
| "jlt _ NaN = False"
| "jlt _ NInf = False"
| "jlt NInf _ = True"
| "jlt PInf _ = False"
| "jlt (Num a) PInf = True"


text \<open>\<^verbatim>\<open>a || d\<close> on an optional number: \<^verbatim>\<open>undefined\<close> and \<^verbatim>\<open>0\<close> are falsy.\<close>

definition js_or :: "real option \<Rightarrow> real \<Rightarrow> real" where
  "js_or a d = (case a of None \<Rightarrow> d | Some v \<Rightarrow> if v = 0 then d else v)"


section \<open>Rounding to IEEE 754 binary64\<close>

text \<open>
  A JavaScript number is an IEEE 754 binary64 value, and every arithmetic operation
  returns the exact result rounded to the nearest such value, ties to the value with an
  even significand. \<open>binade n x\<close> is the exponent \<open>e\<close> with \<open>2 ^ e \<le> x < 2 ^ (e + 1)\<close> of a
  positive \<open>x\<close>, found in at most \<open>n\<close> halvings or doublings; 2200 steps cover every
  exponent of the format, and beyond them the result of \<open>fl\<close> no longer depends on the
  exponent (an infinity above, zero below).
\<close>

fun binade :: "nat \<Rightarrow> real \<Rightarrow> int" where
  "binade n x =
     (if n = 0 then 0
      else if 2 \<le> x then binade (n - 1) (x / 2) + 1
      else if x < 1 then binade (n - 1) (x * 2) - 1
      else 0)"

declare binade.simps [simp del]

definition pow2 :: "int \<Rightarrow> real" where
  "pow2 e = (if 0 \<le> e then 2 ^ nat e else 1 / 2 ^ nat (- e))"

text \<open>
  \<open>fl x\<close> is the double nearest to the real number \<open>x\<close>. The significand has 53 bits, so
  the spacing of the doubles around \<open>x\<close> is \<open>2 ^ (e - 52)\<close>, with the exponent bounded
  below by \<open>- 1022\<close> (the subnormal numbers); a result of magnitude \<open>2 ^ 1024\<close> is an
  infinity.
\<close>

definition fl :: "real \<Rightarrow> jsnum" where
  "fl x =
     (if x = 0 then Num 0
      else
        (let a = \<bar>x\<bar>;
             e = max (binade 2200 a) (- 1022);
             ulp = pow2 (e - 52);
             m = a / ulp;
             f = \<lfloor>m\<rfloor>;
             n = (if m - of_int f < 1 / 2 then f
                  else if 1 / 2 < m - of_int f then f + 1
                  else if even f then f else f + 1);
             r = of_int n * ulp
         in if pow2 1024 \<le> r then (if 0 < x then PInf else NInf)
            else Num (if 0 < x then r else - r)))"

definition rounded :: "jsnum \<Rightarrow> jsnum" where
  "rounded a = (case a of Num x \<Rightarrow> fl x | _ \<Rightarrow> a)"

text \<open>The four operations on doubles: the exact result, rounded.\<close>

definition add64 :: "jsnum \<Rightarrow> jsnum \<Rightarrow> jsnum" where
  "add64 a b = rounded (jadd a b)"

definition sub64 :: "jsnum \<Rightarrow> jsnum \<Rightarrow> jsnum" where
  "sub64 a b = rounded (jsub a b)"

definition mul64 :: "jsnum \<Rightarrow> jsnum \<Rightarrow> jsnum" where
  "mul64 a b = rounded (jmul a b)"

definition div64 :: "jsnum \<Rightarrow> jsnum \<Rightarrow> jsnum" where
  "div64 a b = rounded (jdiv a b)"



section \<open>Viewport controller\<close>

text \<open>
  The zoom configuration of \<^verbatim>\<open>IGraphViewProps\<close>. The default properties give
  \<^verbatim>\<open>minZoom\<close> 0.15, \<^verbatim>\<open>maxZoom\<close> 1.5 and \<^verbatim>\<open>zoomDur\<close> 750 when the caller leaves them out;
  \<open>None\<close> is a zoom bound that the caller sets to \<^verbatim>\<open>null\<close>.
\<close>

record zoom_props =
  prop_minZoom :: "real option"
  prop_maxZoom :: "real option"
  prop_zoomDur :: real

text \<open>\<^verbatim>\<open>IViewTransform\<close>, the fields \<^verbatim>\<open>k\<close>, \<^verbatim>\<open>x\<close>, \<^verbatim>\<open>y\<close>.\<close>

record IViewTransform =
  tk :: real
  tx :: real
  ty :: real


text \<open>
  \<^verbatim>\<open>setZoom(k, x, y, dur)\<close> hands the transform \<^verbatim>\<open>d3.zoomIdentity.translate(x, y).scale(k)\<close>
  to d3 with a transition of \<^verbatim>\<open>dur\<close> milliseconds. The model records the call.
\<close>

datatype setZoom_call = SetZoom jsnum jsnum jsnum real

text \<open>
  The scale extent that \<^verbatim>\<open>componentDidMount\<close> configures on the zoom behaviour and that
  \<^verbatim>\<open>this.zoom.scaleExtent()\<close> returns.
\<close>

definition scaleExtent :: "zoom_props \<Rightarrow> real \<times> real" where
  "scaleExtent p = (js_or (prop_minZoom p) 0, js_or (prop_maxZoom p) 0)"


text \<open>
  \<^verbatim>\<open>modifyZoom\<close>. The state field \<^verbatim>\<open>viewTransform\<close> is optional; reading \<^verbatim>\<open>viewTransform.k\<close>
  of an absent transform is a TypeError. Otherwise the function returns a boolean and
  may have called \<^verbatim>\<open>setZoom\<close>.
\<close>

datatype modifyZoom_result = MZ_TypeError | MZ_Return bool "setZoom_call option"

definition modifyZoom ::
  "real \<times> real \<Rightarrow> real \<Rightarrow> real \<Rightarrow> IViewTransform option \<Rightarrow> real \<Rightarrow> real \<Rightarrow> real \<Rightarrow> real
     \<Rightarrow> modifyZoom_result" where
  "modifyZoom extent clientWidth clientHeight viewTransform modK modX modY dur =
     (case viewTransform of
        None \<Rightarrow> MZ_TypeError
      | Some vt \<Rightarrow>
          (let center_x = clientWidth / 2;
               center_y = clientHeight / 2;
               targetZoom = tk vt * (1 + modK);
               next_k = targetZoom
           in if targetZoom < fst extent \<or> targetZoom > snd extent then MZ_Return False None
              else
                (let translate0_x = jdiv (Num (center_x - tx vt)) (Num next_k);
                     translate0_y = jdiv (Num (center_y - ty vt)) (Num next_k);
                     l_x = jadd (jmul translate0_x (Num next_k)) (Num (tx vt));
                     l_y = jadd (jmul translate0_y (Num next_k)) (Num (ty vt));
                     next_x = jadd (Num (tx vt)) (jadd (jsub (Num center_x) l_x) (Num modX));
                     next_y = jadd (Num (ty vt)) (jadd (jsub (Num center_y) l_y) (Num modY))
                 in MZ_Return True (Some (SetZoom (Num next_k) next_x next_y dur)))))"

text \<open>
  The definition above reads the arithmetic of \<^verbatim>\<open>modifyZoom\<close> exactly. The function as
  it runs rounds every intermediate result: \<open>modifyZoom_binary64\<close> is the same body with
  each operation of the source replaced by the operation on doubles. Its arguments are
  meant to be doubles. \<open>centre_roundtrip c k x\<close> is one coordinate of the point \<^verbatim>\<open>l\<close> of the
  source, \<^verbatim>\<open>translate0 * next.k + next.x\<close> with \<^verbatim>\<open>translate0 = (center - next.x) / next.k\<close>.
\<close>

definition centre_roundtrip :: "jsnum \<Rightarrow> jsnum \<Rightarrow> real \<Rightarrow> jsnum" where
  "centre_roundtrip c k x = add64 (mul64 (div64 (sub64 c (Num x)) k) k) (Num x)"

definition modifyZoom_binary64 ::
  "real \<times> real \<Rightarrow> real \<Rightarrow> real \<Rightarrow> IViewTransform option \<Rightarrow> real \<Rightarrow> real \<Rightarrow> real \<Rightarrow> real
     \<Rightarrow> modifyZoom_result" where
  "modifyZoom_binary64 extent clientWidth clientHeight viewTransform modK modX modY dur =
     (case viewTransform of
        None \<Rightarrow> MZ_TypeError
      | Some vt \<Rightarrow>
          (let center_x = div64 (Num clientWidth) (Num 2);
               center_y = div64 (Num clientHeight) (Num 2);
               targetZoom = mul64 (Num (tk vt)) (add64 (Num 1) (Num modK));
               next_k = targetZoom
           in if jlt targetZoom (Num (fst extent)) \<or> jlt (Num (snd extent)) targetZoom
              then MZ_Return False None
              else
                (let l_x = centre_roundtrip center_x next_k (tx vt);
                     l_y = centre_roundtrip center_y next_k (ty vt);
                     next_x = add64 (Num (tx vt)) (add64 (sub64 center_x l_x) (Num modX));
                     next_y = add64 (Num (ty vt)) (add64 (sub64 center_y l_y) (Num modY))
                 in MZ_Return True (Some (SetZoom next_k next_x next_y dur)))))"


text \<open>
  The anchoring that the specification asks of a relative zoom, in its own words: the
  graph point drawn at the centre of the viewport under the current transform is drawn
  at the centre under the new transform \<open>(k', x', y')\<close>.
\<close>

definition spec_anchored_at_center ::
  "real \<Rightarrow> real \<Rightarrow> IViewTransform \<Rightarrow> real \<times> real \<times> real \<Rightarrow> bool" where
  "spec_anchored_at_center clientWidth clientHeight vt new =
     (case new of (k', x', y') \<Rightarrow>
        k' * ((clientWidth / 2 - tx vt) / tk vt) + x' = clientWidth / 2
      \<and> k' * ((clientHeight / 2 - ty vt) / tk vt) + y' = clientHeight / 2)"


section \<open>Graph view: data\<close>

text \<open>
  Node objects are mutated in place (\<^verbatim>\<open>handleNodeMove\<close>, \<^verbatim>\<open>handleNodeUpdate\<close>) and shared
  between the node array, the node index, the selection and the hover state, and they
  are compared by reference. They live in a store; a \<open>ref\<close> is the address of a node
  object. Of a node only the key field (\<^verbatim>\<open>node[nodeKey]\<close>) and the position are modelled.
\<close>

type_synonym ref = nat

record INode =
  nkey :: string
  node_x :: real
  node_y :: real

text \<open>
  Edge objects are never mutated once they are shared, so they are values; \<open>oid\<close> is the
  identity of the object, which \<^verbatim>\<open>renderEdge\<close> compares. \<^verbatim>\<open>source\<close> and \<^verbatim>\<open>target\<close> may be
  absent (\<^verbatim>\<open>undefined\<close>); an edge that is being drawn has a \<^verbatim>\<open>targetPosition\<close> instead of a
  target.
\<close>

record IEdge =
  oid :: nat
  source :: "string option"
  target :: "string option"
  targetPosition :: "(real \<times> real) option"

text \<open>Truthiness of an optional string, and its rendering inside a template literal.\<close>

definition truthy :: "string option \<Rightarrow> bool" where
  "truthy v = (case v of None \<Rightarrow> False | Some s \<Rightarrow> s \<noteq> [])"

definition tmpl :: "string option \<Rightarrow> string" where
  "tmpl v = (case v of None \<Rightarrow> ''undefined'' | Some s \<Rightarrow> s)"

text \<open>
  The entries of the two indices (\<^verbatim>\<open>INodeMapNode\<close> and the values of \<^verbatim>\<open>edgesMap\<close>). The
  indices are JavaScript objects: association lists in insertion order.
\<close>

record INodeMapNode =
  mn_node :: ref
  mn_originalArrIndex :: nat
  incomingEdges :: "IEdge list"
  outgoingEdges :: "IEdge list"

record IEdgeMapEdge =
  me_edge :: IEdge
  me_originalArrIndex :: nat

text \<open>What the caller can have selected and what is passed to \<^verbatim>\<open>handleDelete\<close>.\<close>

datatype entity = NodeE ref | EdgeE IEdge

text \<open>The calls of the caller's handlers, with their arguments.\<close>

datatype notification =
    OnSelectNode "ref option"
  | OnSelectEdge IEdge
  | OnCreateNode real real
  | OnUpdateNode ref
  | OnDeleteNode entity nat "ref list"
  | OnCreateEdge ref ref
  | OnSwapEdge ref ref IEdge
  | OnDeleteEdge IEdge nat "IEdge list"

text \<open>
  The properties that gate the edits. A permission predicate can be \<^verbatim>\<open>null\<close> (\<open>None\<close>);
  \<^verbatim>\<open>canCreateEdge\<close> takes no argument and is modelled by its result.
\<close>

record props =
  readOnly :: bool
  canCreateEdge :: "bool option"
  canDeleteNode :: "(entity \<Rightarrow> bool) option"
  canDeleteEdge :: "(entity \<Rightarrow> bool) option"

text \<open>
  The content of a container element of the document: nothing yet, a \<^verbatim>\<open>Node\<close> component
  (data, index, \<^verbatim>\<open>isSelected\<close>) or an \<^verbatim>\<open>Edge\<close> component (data, \<^verbatim>\<open>isSelected\<close>). The other
  properties of the components are computed from the same data and are left out.
\<close>

datatype element = EmptyContainer | NodeComponent ref int bool | EdgeComponent IEdge bool

text \<open>The callbacks given to \<^verbatim>\<open>setTimeout\<close> by \<^verbatim>\<open>asyncRenderNode\<close> and \<^verbatim>\<open>asyncRenderEdge\<close>.\<close>

datatype task = RenderNodeTask ref int | RenderEdgeTask IEdge

text \<open>
  The component: its React state, the document with the containers it renders into (by
  element id, in document order), the notifications sent so far, the counter of allocated
  edge objects, and the timers: the two tables of timeout handles of the component, the
  pending timeouts of the event loop and the next handle.
\<close>

record gv =
  heap :: "ref \<Rightarrow> INode"
  nodes :: "ref list"
  edges :: "IEdge list"
  nodesMap :: "(string \<times> INodeMapNode) list"
  edgesMap :: "(string \<times> IEdgeMapEdge) list"
  selectedNodeObj :: "(int \<times> ref option) option"
  selectedEdgeObj :: "IEdge option"
  hoveredNode :: bool
  hoveredNodeData :: "ref option"
  edgeEndNode :: "ref option"
  draggingEdge :: bool
  draggedEdge :: "IEdge option"
  selectingNode :: bool
  componentUpToDate :: bool
  document :: "(string \<times> element) list"
  notified :: "notification list"
  next_oid :: nat
  nodeTimeouts :: "(string \<times> nat) list"
  edgeTimeouts :: "(string \<times> nat) list"
  timers :: "(nat \<times> task) list"
  next_timer :: nat

text \<open>
  A handler returns, or it throws a TypeError (a property read on \<^verbatim>\<open>undefined\<close> or
  \<^verbatim>\<open>null\<close>); in both cases the state reached so far remains. \<^verbatim>\<open>setState\<close> is modelled as
  an immediate update of the named fields: the handlers are called from d3 event
  listeners, outside of React's batching, and the component forces its re-rendering with
  the field \<^verbatim>\<open>componentUpToDate\<close>, which \<^verbatim>\<open>getDerivedStateFromProps\<close> would overwrite if it
  ran on a state update. The re-rendering that React starts afterwards
  (\<^verbatim>\<open>componentDidUpdate\<close>) and what the caller does in its handlers (new properties, from
  which \<^verbatim>\<open>getDerivedStateFromProps\<close> rebuilds the indices and the selection) are not part
  of the handlers; a notification is recorded and has no other effect.
\<close>

datatype 'a outcome = Returns 'a | Throws 'a

fun state_of :: "'a outcome \<Rightarrow> 'a" where
  "state_of (Returns s) = s"
| "state_of (Throws s) = s"

fun and_then :: "'a outcome \<Rightarrow> ('a \<Rightarrow> 'a outcome) \<Rightarrow> 'a outcome" where
  "and_then (Returns s) f = f s"
| "and_then (Throws s) f = Throws s"

text \<open>\<^verbatim>\<open>xs[i]\<close> is \<^verbatim>\<open>undefined\<close> out of range; \<^verbatim>\<open>xs.splice(i, 1)\<close> removes one element.\<close>

definition js_index :: "'a list \<Rightarrow> int \<Rightarrow> 'a option" where
  "js_index xs i = (if 0 \<le> i \<and> i < int (length xs) then Some (xs ! nat i) else None)"

definition splice1 :: "nat \<Rightarrow> 'a list \<Rightarrow> 'a list" where
  "splice1 i xs = take i xs @ drop (Suc i) xs"

definition notify :: "gv \<Rightarrow> notification \<Rightarrow> gv" where
  "notify s n = s\<lparr>notified := notified s @ [n]\<rparr>"

text \<open>
  \<^verbatim>\<open>selected[nodeKey]\<close> and \<^verbatim>\<open>selected.source\<close> of an entity: an edge has no key field and a
  node has no source.
\<close>

definition entity_key :: "gv \<Rightarrow> entity \<Rightarrow> string option" where
  "entity_key s e = (case e of NodeE r \<Rightarrow> Some (nkey (heap s r)) | EdgeE _ \<Rightarrow> None)"

definition entity_source :: "entity \<Rightarrow> string option" where
  "entity_source e = (case e of NodeE _ \<Rightarrow> None | EdgeE ed \<Rightarrow> source ed)"


section \<open>Graph view: index and document\<close>

definition getNodeById :: "gv \<Rightarrow> string option \<Rightarrow> INodeMapNode option" where
  "getNodeById s nid = map_of (nodesMap s) (''key-'' @ (case nid of None \<Rightarrow> [] | Some i \<Rightarrow> i))"

definition getEdgeBySourceTarget :: "gv \<Rightarrow> string option \<Rightarrow> string option \<Rightarrow> IEdgeMapEdge option" where
  "getEdgeBySourceTarget s src tgt = map_of (edgesMap s) (tmpl src @ ''_'' @ tmpl tgt)"

definition deleteNodeById :: "gv \<Rightarrow> string option \<Rightarrow> gv" where
  "deleteNodeById s nid =
     (if map_of (nodesMap s) (''key-'' @ tmpl nid) \<noteq> None
      then s\<lparr>nodesMap := AList.delete (''key-'' @ tmpl nid) (nodesMap s)\<rparr>
      else s)"

definition deleteEdgeBySourceTarget :: "gv \<Rightarrow> string option \<Rightarrow> string option \<Rightarrow> gv" where
  "deleteEdgeBySourceTarget s src tgt =
     (if map_of (edgesMap s) (tmpl src @ ''_'' @ tmpl tgt) \<noteq> None
      then s\<lparr>edgesMap := AList.delete (tmpl src @ ''_'' @ tmpl tgt) (edgesMap s)\<rparr>
      else s)"

text \<open>
  Modelled from the spec: \<^verbatim>\<open>GraphUtils.removeElementFromDom\<close> (\<^verbatim>\<open>graph-util.js\<close> is not among
  the sources) removes the rendered element with the given id, if there is one.
\<close>

definition removeElementFromDom :: "gv \<Rightarrow> string \<Rightarrow> gv" where
  "removeElementFromDom s eid = s\<lparr>document := AList.delete eid (document s)\<rparr>"

definition removeEdgeElement :: "gv \<Rightarrow> string option \<Rightarrow> string option \<Rightarrow> gv" where
  "removeEdgeElement s src tgt =
     removeElementFromDom s (''edge-'' @ (tmpl src @ ''-'' @ tmpl tgt) @ ''-container'')"


section \<open>Graph view: rendering\<close>

definition isEdgeSelected :: "gv \<Rightarrow> IEdge \<Rightarrow> bool" where
  "isEdgeSelected s edge =
     (case selectedEdgeObj s of
        None \<Rightarrow> False
      | Some sel \<Rightarrow> source sel = source edge \<and> target sel = target edge)"

definition getEdgeComponent :: "gv \<Rightarrow> IEdge \<Rightarrow> element" where
  "getEdgeComponent s edge = EdgeComponent edge (isEdgeSelected s edge)"

text \<open>
  \<^verbatim>\<open>renderEdge\<close>: a missing container is created, unless the edge is the dragged edge
  object, and nothing is rendered into it in that call; an existing container receives
  the element.
\<close>

definition renderEdge :: "gv \<Rightarrow> string \<Rightarrow> element \<Rightarrow> IEdge \<Rightarrow> gv" where
  "renderEdge s eid el edge =
     (let containerId = eid @ ''-container'';
          edgeContainer = map_of (document s) containerId;
          s1 = (if edgeContainer = None
                   \<and> (case draggedEdge s of None \<Rightarrow> True | Some d \<Rightarrow> oid edge \<noteq> oid d)
                then s\<lparr>document := document s @ [(containerId, EmptyContainer)]\<rparr>
                else s)
      in if edgeContainer \<noteq> None
         then s1\<lparr>document := AList.update containerId el (document s1)\<rparr>
         else s1)"

definition syncRenderEdge :: "gv \<Rightarrow> IEdge \<Rightarrow> gv" where
  "syncRenderEdge s edge =
     (if \<not> truthy (source edge) then s
      else
        (let idVar = (if truthy (target edge) then tmpl (source edge) @ ''-'' @ tmpl (target edge)
                      else ''custom'');
             eid = ''edge-'' @ idVar;
             el = getEdgeComponent s edge
         in renderEdge s eid el edge))"

text \<open>
  \<^verbatim>\<open>getNodeComponent\<close> reads \<^verbatim>\<open>this.state.selectedNodeObj.node\<close>: a TypeError (\<open>None\<close>) when
  \<^verbatim>\<open>selectedNodeObj\<close> is \<^verbatim>\<open>null\<close>.
\<close>

definition getNodeComponent :: "gv \<Rightarrow> ref \<Rightarrow> int \<Rightarrow> element option" where
  "getNodeComponent s node index =
     (case selectedNodeObj s of
        None \<Rightarrow> None
      | Some (_, sel) \<Rightarrow> Some (NodeComponent node index (sel = Some node)))"

definition renderNode :: "gv \<Rightarrow> string \<Rightarrow> element \<Rightarrow> gv" where
  "renderNode s eid el = s\<lparr>document := AList.update (eid @ ''-container'') el (document s)\<rparr>"

definition syncRenderConnectedEdgesFromNode :: "gv \<Rightarrow> INodeMapNode \<Rightarrow> gv" where
  "syncRenderConnectedEdgesFromNode s node =
     (if draggingEdge s then s
      else fold (\<lambda>edge st. syncRenderEdge st edge) (outgoingEdges node)
             (fold (\<lambda>edge st. syncRenderEdge st edge) (incomingEdges node) s))"

definition syncRenderNode :: "gv \<Rightarrow> ref \<Rightarrow> int \<Rightarrow> gv outcome" where
  "syncRenderNode s node i =
     (let eid = ''node-'' @ nkey (heap s node) in
      case getNodeComponent s node i of
        None \<Rightarrow> Throws s
      | Some el \<Rightarrow>
          (let nodesMapNode = getNodeById s (Some (nkey (heap s node)));
               s1 = renderNode s eid el
           in case nodesMapNode of
                None \<Rightarrow> Returns s1
              | Some entry \<Rightarrow> Returns (syncRenderConnectedEdgesFromNode s1 entry)))"

text \<open>
  \<^verbatim>\<open>removeOldNodes\<close>: for every key of the previous index that the new index lacks, the
  containers of the outgoing and incoming edges of the node and the container of the node
  are removed.
\<close>

definition removeOldNodes ::
  "gv \<Rightarrow> (string \<times> INodeMapNode) list \<Rightarrow> (string \<times> INodeMapNode) list \<Rightarrow> gv" where
  "removeOldNodes s prevNodeMap newNodesMap =
     fold (\<lambda>nodeId st.
             case map_of prevNodeMap nodeId of
               None \<Rightarrow> st
             | Some prev \<Rightarrow>
                 if map_of newNodesMap nodeId = None then
                   (let st1 = fold (\<lambda>edge t. removeEdgeElement t (source edge) (target edge))
                                (outgoingEdges prev) st;
                        st2 = fold (\<lambda>edge t. removeEdgeElement t (source edge) (target edge))
                                (incomingEdges prev) st1
                    in removeElementFromDom st2
                         (''node-'' @ nkey (heap st2 (mn_node prev)) @ ''-container''))
                 else st)
          (map fst prevNodeMap) s"


section \<open>Graph view: scheduled redraws\<close>

text \<open>
  \<^verbatim>\<open>clearTimeout\<close> removes the pending timeout with the given handle, if there is one
  (the handle read from the table may be \<^verbatim>\<open>undefined\<close>); \<^verbatim>\<open>setTimeout\<close> appends the
  callback to the pending timeouts under a fresh handle.
\<close>

definition clearTimeout :: "gv \<Rightarrow> nat option \<Rightarrow> gv" where
  "clearTimeout s h = s\<lparr>timers := filter (\<lambda>(i, t). Some i \<noteq> h) (timers s)\<rparr>"

definition setTimeout :: "gv \<Rightarrow> task \<Rightarrow> nat \<times> gv" where
  "setTimeout s t =
     (next_timer s, s\<lparr>timers := timers s @ [(next_timer s, t)], next_timer := Suc (next_timer s)\<rparr>)"

definition asyncRenderNode :: "gv \<Rightarrow> ref \<Rightarrow> int \<Rightarrow> gv" where
  "asyncRenderNode s node i =
     (let timeoutId = ''nodes-'' @ nkey (heap s node);
          s1 = clearTimeout s (map_of (nodeTimeouts s) timeoutId);
          (h, s2) = setTimeout s1 (RenderNodeTask node i)
      in s2\<lparr>nodeTimeouts := AList.update timeoutId h (nodeTimeouts s2)\<rparr>)"

definition asyncRenderEdge :: "gv \<Rightarrow> IEdge \<Rightarrow> gv" where
  "asyncRenderEdge s edge =
     (if \<not> truthy (source edge) \<or> \<not> truthy (target edge) then s
      else
        (let timeoutId = ''edges-'' @ tmpl (source edge) @ ''-'' @ tmpl (target edge);
             s1 = clearTimeout s (map_of (edgeTimeouts s) timeoutId);
             (h, s2) = setTimeout s1 (RenderEdgeTask edge)
         in s2\<lparr>edgeTimeouts := AList.update timeoutId h (edgeTimeouts s2)\<rparr>))"


section \<open>Graph view: edits and gestures\<close>

definition canSwap :: "gv \<Rightarrow> ref \<Rightarrow> ref option \<Rightarrow> IEdge \<Rightarrow> bool" where
  "canSwap s sourceNode hovered swapEdge =
     (case hovered of
        None \<Rightarrow> False
      | Some h \<Rightarrow> source swapEdge \<noteq> Some (nkey (heap s sourceNode))
                 \<or> target swapEdge \<noteq> Some (nkey (heap s h)))"

text \<open>
  \<^verbatim>\<open>deleteNode\<close>: the index entry is read without a check, so a missing entry is a
  TypeError before anything is changed.
\<close>

definition deleteNode :: "gv \<Rightarrow> entity \<Rightarrow> gv outcome" where
  "deleteNode s selectedNode =
     (let nodeId = entity_key s selectedNode in
      case getNodeById s nodeId of
        None \<Rightarrow> Throws s
      | Some entry \<Rightarrow>
          (let originalArrIndex = mn_originalArrIndex entry;
               s1 = deleteNodeById s nodeId;
               s2 = s1\<lparr>nodes := splice1 originalArrIndex (nodes s1)\<rparr>;
               s3 = s2\<lparr>componentUpToDate := False, hoveredNode := False\<rparr>;
               s4 = removeElementFromDom s3 (''node-'' @ tmpl nodeId @ ''-container'');
               s5 = notify s4 (OnDeleteNode selectedNode originalArrIndex (nodes s4))
           in Returns (notify s5 (OnSelectNode None))))"

definition deleteEdge :: "gv \<Rightarrow> IEdge \<Rightarrow> gv outcome" where
  "deleteEdge s selectedEdge =
     (if \<not> truthy (source selectedEdge) \<or> \<not> truthy (target selectedEdge) then Returns s
      else
        case getEdgeBySourceTarget s (source selectedEdge) (target selectedEdge) of
          None \<Rightarrow> Throws s
        | Some entry \<Rightarrow>
            (let originalArrIndex = me_originalArrIndex entry;
                 s1 = s\<lparr>edges := splice1 originalArrIndex (edges s)\<rparr>;
                 s2 = deleteEdgeBySourceTarget s1 (source selectedEdge) (target selectedEdge);
                 s3 = s2\<lparr>componentUpToDate := False\<rparr>;
                 s4 = removeElementFromDom s3
                        (''edge-'' @ tmpl (source selectedEdge) @ ''-'' @ tmpl (target selectedEdge)
                           @ ''-container'')
             in Returns (notify s4 (OnDeleteEdge selectedEdge originalArrIndex (edges s4)))))"

text \<open>
  \<^verbatim>\<open>handleDelete\<close>: an entity without a truthy \<^verbatim>\<open>source\<close> is deleted as a node, one with a
  truthy \<^verbatim>\<open>source\<close> as an edge (only an edge has one).
\<close>

definition handleDelete :: "props \<Rightarrow> gv \<Rightarrow> entity option \<Rightarrow> gv outcome" where
  "handleDelete p s selected =
     (case selected of
        None \<Rightarrow> Returns s
      | Some sel \<Rightarrow>
          if readOnly p then Returns s
          else if \<not> truthy (entity_source sel)
                  \<and> (case canDeleteNode p of None \<Rightarrow> False | Some f \<Rightarrow> f sel)
          then deleteNode s sel
          else if truthy (entity_source sel)
                  \<and> (case canDeleteEdge p of None \<Rightarrow> False | Some f \<Rightarrow> f sel)
          then (case sel of EdgeE e \<Rightarrow> deleteEdge s e | NodeE _ \<Rightarrow> Returns s)
          else Returns s)"

text \<open>
  \<^verbatim>\<open>handleEdgeSelected\<close>; \<open>dsource\<close> and \<open>dtarget\<close> are the \<^verbatim>\<open>dataset\<close> values of the clicked
  element. The index entry is read without a check, and so is the edge at the recorded
  position when it is rendered.
\<close>

definition handleEdgeSelected :: "gv \<Rightarrow> string option \<Rightarrow> string option \<Rightarrow> gv outcome" where
  "handleEdgeSelected s dsource dtarget =
     (if truthy dsource \<and> truthy dtarget then
        case getEdgeBySourceTarget s dsource dtarget of
          None \<Rightarrow> Throws s
        | Some entry \<Rightarrow>
            (let originalArrIndex = me_originalArrIndex entry;
                 previousSelection = selectedEdgeObj s;
                 clicked = js_index (edges s) (int originalArrIndex);
                 s1 = s\<lparr>selectedEdgeObj := clicked\<rparr>
             in case clicked of
                  None \<Rightarrow> Throws s1
                | Some edge \<Rightarrow>
                    (let s2 = syncRenderEdge s1 edge;
                         s3 = (case previousSelection of
                                 None \<Rightarrow> s2
                               | Some prev \<Rightarrow> syncRenderEdge s2 prev)
                     in Returns (notify s3 (OnSelectEdge edge))))
      else Returns s)"

text \<open>
  \<^verbatim>\<open>handleSvgClicked\<close>; \<open>partOfEdge\<close> is the result of \<^verbatim>\<open>isPartOfEdge\<close> on the event target,
  \<open>shiftKey\<close> and \<open>xycoords\<close> are read from the d3 event.
\<close>

definition handleSvgClicked ::
  "props \<Rightarrow> gv \<Rightarrow> bool \<Rightarrow> string option \<Rightarrow> string option \<Rightarrow> bool \<Rightarrow> real \<times> real \<Rightarrow> gv outcome" where
  "handleSvgClicked p s partOfEdge dsource dtarget shiftKey xycoords =
     (if partOfEdge then handleEdgeSelected s dsource dtarget
      else if selectingNode s then Returns (s\<lparr>selectingNode := False\<rparr>)
      else
        (let previousSelection = (case selectedNodeObj s of None \<Rightarrow> None | Some (_, n) \<Rightarrow> n);
             previousSelectionIndex =
               (case selectedNodeObj s of None \<Rightarrow> - 1 | Some (i, _) \<Rightarrow> if i = 0 then - 1 else i);
             s1 = s\<lparr>selectedNodeObj := None\<rparr>;
             s2 = notify s1 (OnSelectNode None)
         in and_then
              (case previousSelection of
                 None \<Rightarrow> Returns s2
               | Some prev \<Rightarrow> syncRenderNode s2 prev previousSelectionIndex)
              (\<lambda>s3. Returns (if \<not> readOnly p \<and> shiftKey
                              then notify s3 (OnCreateNode (fst xycoords) (snd xycoords))
                              else s3))))"

definition handleNodeMove :: "props \<Rightarrow> gv \<Rightarrow> real \<times> real \<Rightarrow> int \<Rightarrow> bool \<Rightarrow> gv outcome" where
  "handleNodeMove p s position index shiftKey =
     (let node = js_index (nodes s) index in
      if readOnly p then Returns s
      else if \<not> shiftKey then
        (case node of
           None \<Rightarrow> Throws s
         | Some n \<Rightarrow>
             (let s1 = s\<lparr>heap := (heap s)(n := (heap s n)\<lparr>node_x := fst position,
                                                         node_y := snd position\<rparr>)\<rparr>
              in case getNodeById s1 (Some (nkey (heap s1 n))) of
                   None \<Rightarrow> Returns s1
                 | Some nodeMapNode \<Rightarrow>
                     Returns (fold (\<lambda>edge st. syncRenderEdge st edge) (outgoingEdges nodeMapNode)
                               (fold (\<lambda>edge st. syncRenderEdge st edge) (incomingEdges nodeMapNode)
                                  s1))))
      else if canCreateEdge p = Some True then
        (case node of
           None \<Rightarrow> Throws s
         | Some n \<Rightarrow>
             (let edge = \<lparr>oid = next_oid s, source = Some (nkey (heap s n)), target = None,
                          targetPosition = Some position\<rparr>;
                  s1 = syncRenderEdge (s\<lparr>next_oid := Suc (next_oid s)\<rparr>) edge
              in Returns (s1\<lparr>draggingEdge := True\<rparr>)))
      else Returns s)"

definition createNewEdge :: "props \<Rightarrow> gv \<Rightarrow> gv outcome" where
  "createNewEdge p s =
     (let s0 = removeElementFromDom s ''edge-custom-container'' in
      case edgeEndNode s0 of
        None \<Rightarrow> Returns s0
      | Some endNode \<Rightarrow>
          (case hoveredNodeData s0 of
             None \<Rightarrow> Throws s0
           | Some hovered \<Rightarrow>
               (let mapId1 = nkey (heap s0 hovered) @ ''_'' @ nkey (heap s0 endNode);
                    mapId2 = nkey (heap s0 endNode) @ ''_'' @ nkey (heap s0 hovered)
                in if hovered \<noteq> endNode
                      \<and> canCreateEdge p = Some True
                      \<and> map_of (edgesMap s0) mapId1 = None
                      \<and> map_of (edgesMap s0) mapId2 = None
                   then
                     (let edge = \<lparr>oid = next_oid s0, source = Some (nkey (heap s0 hovered)),
                                  target = Some (nkey (heap s0 endNode)), targetPosition = None\<rparr>;
                          s1 = s0\<lparr>next_oid := Suc (next_oid s0)\<rparr>;
                          s2 = s1\<lparr>componentUpToDate := False, draggedEdge := None,
                                  draggingEdge := False\<rparr>;
                          s3 = syncRenderEdge s2 edge
                      in Returns (notify s3 (OnCreateEdge hovered endNode)))
                   else Returns s0)))"

definition handleNodeUpdate :: "props \<Rightarrow> gv \<Rightarrow> real \<times> real \<Rightarrow> int \<Rightarrow> bool \<Rightarrow> gv outcome" where
  "handleNodeUpdate p s position index shiftKey =
     and_then
       (if shiftKey then createNewEdge p s
        else
          (case js_index (nodes s) index of
             None \<Rightarrow> Returns s
           | Some n \<Rightarrow>
               Returns (notify
                          (s\<lparr>heap := (heap s)(n := (heap s n)\<lparr>node_x := fst position,
                                                              node_y := snd position\<rparr>)\<rparr>)
                          (OnUpdateNode n))))
       (\<lambda>s1. Returns (s1\<lparr>componentUpToDate := False, hoveredNode := False\<rparr>))"


text \<open>
  \<^verbatim>\<open>handleZoomEnd\<close>: the end of an edge-retarget gesture. The copy of the dragged edge is
  a new object. The entries of the source node and of the final target node are read
  without a check.
\<close>

definition handleZoomEnd :: "gv \<Rightarrow> gv outcome" where
  "handleZoomEnd s =
     (case draggedEdge s of
        None \<Rightarrow> Returns s
      | Some dragged \<Rightarrow>
          if \<not> draggingEdge s then Returns s
          else
            (let endNode = edgeEndNode s;
                 draggedEdgeCopy = dragged\<lparr>oid := next_oid s\<rparr>;
                 s1 = s\<lparr>next_oid := Suc (next_oid s)\<rparr>;
                 s2 = removeElementFromDom s1 ''edge-custom-container'';
                 s3 = s2\<lparr>draggedEdge := None, draggingEdge := False\<rparr>
             in case getNodeById s3 (source dragged) of
                  None \<Rightarrow> Throws s3
                | Some sourceEntry \<Rightarrow>
                    (let swapped =
                           (case endNode of
                              None \<Rightarrow> draggedEdgeCopy
                            | Some h \<Rightarrow>
                                if canSwap s3 (mn_node sourceEntry) endNode dragged
                                then draggedEdgeCopy\<lparr>target := Some (nkey (heap s3 h))\<rparr>
                                else draggedEdgeCopy);
                         s4 = syncRenderEdge s3 swapped
                     in case getNodeById s4 (source swapped) of
                          None \<Rightarrow> Throws s4
                        | Some a \<Rightarrow>
                            (case getNodeById s4 (target swapped) of
                               None \<Rightarrow> Throws s4
                             | Some b \<Rightarrow>
                                 Returns (notify s4 (OnSwapEdge (mn_node a) (mn_node b) dragged))))))"


section \<open>Notions used in the statements\<close>

text \<open>
  The notifications that report an edit of the graph; the two selection notifications
  are the others.
\<close>

fun edit_notification :: "notification \<Rightarrow> bool" where
  "edit_notification (OnSelectNode _) = False"
| "edit_notification (OnSelectEdge _) = False"
| "edit_notification _ = True"

text \<open>The pending redraws that were scheduled under a timeout id of a node or of an edge.\<close>

fun task_timeoutId :: "gv \<Rightarrow> task \<Rightarrow> string" where
  "task_timeoutId s (RenderNodeTask node i) = ''nodes-'' @ nkey (heap s node)"
| "task_timeoutId s (RenderEdgeTask edge) =
     ''edges-'' @ tmpl (source edge) @ ''-'' @ tmpl (target edge)"

definition pending_redraws :: "gv \<Rightarrow> string \<Rightarrow> task list" where
  "pending_redraws s timeoutId =
     map snd (filter (\<lambda>(h, t). task_timeoutId s t = timeoutId) (timers s))"

text \<open>
  The state of the timers that the component maintains: the handles of the pending
  timeouts are pairwise different, every pending redraw is the one whose handle is
  recorded in the table of its kind under its timeout id, no handle is recorded twice in
  the two tables \<^verbatim>\<open>nodeTimeouts\<close> and \<^verbatim>\<open>edgeTimeouts\<close>, and the recorded handles are below the
  next handle.
\<close>

fun task_handle :: "gv \<Rightarrow> task \<Rightarrow> nat option" where
  "task_handle s (RenderNodeTask node i) =
     map_of (nodeTimeouts s) (''nodes-'' @ nkey (heap s node))"
| "task_handle s (RenderEdgeTask edge) =
     map_of (edgeTimeouts s) (''edges-'' @ tmpl (source edge) @ ''-'' @ tmpl (target edge))"

definition timers_registered :: "gv \<Rightarrow> bool" where
  "timers_registered s =
     (distinct (map fst (timers s))
      \<and> list_all (\<lambda>(h, t). task_handle s t = Some h) (timers s)
      \<and> distinct (map snd (nodeTimeouts s) @ map snd (edgeTimeouts s))
      \<and> list_all (\<lambda>h. h < next_timer s) (map snd (nodeTimeouts s) @ map snd (edgeTimeouts s)))"

text \<open>
  A request for an asynchronous redraw, named by the task that it asks for:
  \<^verbatim>\<open>asyncRenderNode(node, i)\<close> or \<^verbatim>\<open>asyncRenderEdge(edge)\<close>. A request for an edge without a
  source or without a target schedules nothing.
\<close>

fun requestRedraw :: "gv \<Rightarrow> task \<Rightarrow> gv" where
  "requestRedraw s (RenderNodeTask node i) = asyncRenderNode s node i"
| "requestRedraw s (RenderEdgeTask edge) = asyncRenderEdge s edge"

fun schedules :: "task \<Rightarrow> bool" where
  "schedules (RenderNodeTask node i) = True"
| "schedules (RenderEdgeTask edge) = (truthy (source edge) \<and> truthy (target edge))"

text \<open>The element ids of the containers of a node with a given key and of an edge.\<close>

definition node_containerId :: "string \<Rightarrow> string" where
  "node_containerId key = ''node-'' @ key @ ''-container''"

definition edge_containerId :: "IEdge \<Rightarrow> string" where
  "edge_containerId e = ''edge-'' @ (tmpl (source e) @ ''-'' @ tmpl (target e)) @ ''-container''"

text \<open>One round of the loop of \<^verbatim>\<open>removeOldNodes\<close>, for one key of the previous index.\<close>

definition removeOldNode ::
  "(string \<times> INodeMapNode) list \<Rightarrow> (string \<times> INodeMapNode) list \<Rightarrow> string \<Rightarrow> gv \<Rightarrow> gv" where
  "removeOldNode prevNodeMap newNodesMap nodeId st =
     (case map_of prevNodeMap nodeId of
        None \<Rightarrow> st
      | Some prev \<Rightarrow>
          if map_of newNodesMap nodeId = None then
            (let st1 = fold (\<lambda>edge t. removeElementFromDom t (edge_containerId edge))
                         (outgoingEdges prev) st;
                 st2 = fold (\<lambda>edge t. removeElementFromDom t (edge_containerId edge))
                         (incomingEdges prev) st1
             in removeElementFromDom st2 (node_containerId (nkey (heap st2 (mn_node prev)))))
          else st)"


section \<open>Building the indices\<close>

text \<open>
  Modelled from the spec: \<^verbatim>\<open>GraphUtils.getNodesMap\<close>, \<^verbatim>\<open>GraphUtils.getEdgesMap\<close> and
  \<^verbatim>\<open>GraphUtils.linkNodesAndEdges\<close> (\<^verbatim>\<open>graph-util.js\<close> is not among the sources), with which
  \<^verbatim>\<open>getDerivedStateFromProps\<close> builds the two indices. A node entry is keyed by \<open>key-\<close> and
  the node key and holds the node, its position in the collection and empty edge lists;
  an edge entry is keyed by source, \<open>_\<close> and target and holds the edge and its position;
  linking appends every edge whose two end nodes are indexed to the outgoing edges of its
  source entry and to the incoming edges of its target entry.
\<close>

definition getNodesMap :: "(ref \<Rightarrow> INode) \<Rightarrow> ref list \<Rightarrow> (string \<times> INodeMapNode) list" where
  "getNodesMap h ns =
     fold (\<lambda>(i, n) m. AList.update (''key-'' @ nkey (h n))
                          \<lparr>mn_node = n, mn_originalArrIndex = i,
                           incomingEdges = [], outgoingEdges = []\<rparr> m)
       (enumerate 0 ns) []"

definition getEdgesMap :: "IEdge list \<Rightarrow> (string \<times> IEdgeMapEdge) list" where
  "getEdgesMap es =
     fold (\<lambda>(i, e) m. AList.update (tmpl (source e) @ ''_'' @ tmpl (target e))
                          \<lparr>me_edge = e, me_originalArrIndex = i\<rparr> m)
       (enumerate 0 es) []"

definition linkNodesAndEdges ::
  "(string \<times> INodeMapNode) list \<Rightarrow> IEdge list \<Rightarrow> (string \<times> INodeMapNode) list" where
  "linkNodesAndEdges nm es =
     fold (\<lambda>e m.
             case map_of m (''key-'' @ tmpl (source e)) of
               None \<Rightarrow> m
             | Some a \<Rightarrow>
                 (case map_of m (''key-'' @ tmpl (target e)) of
                    None \<Rightarrow> m
                  | Some _ \<Rightarrow>
                      (let m1 = AList.update (''key-'' @ tmpl (source e))
                                  (a\<lparr>outgoingEdges := outgoingEdges a @ [e]\<rparr>) m
                       in case map_of m1 (''key-'' @ tmpl (target e)) of
                            None \<Rightarrow> m1
                          | Some b \<Rightarrow>
                              AList.update (''key-'' @ tmpl (target e))
                                (b\<lparr>incomingEdges := incomingEdges b @ [e]\<rparr>) m1)))
       es nm"


section \<open>An example graph\<close>

text \<open>
  Three nodes \<open>a\<close>, \<open>b\<close>, \<open>c\<close> at the addresses 0, 1, 2, the edges from \<open>a\<close> to \<open>b\<close> and
  from \<open>b\<close> to \<open>c\<close>, the two indices built from these collections, and the document
  after the first rendering. Nothing is selected or hovered and no timeout is pending.
\<close>

definition demo_heap :: "ref \<Rightarrow> INode" where
  "demo_heap r =
     (if r = 0 then \<lparr>nkey = ''a'', node_x = 0, node_y = 0\<rparr>
      else if r = 1 then \<lparr>nkey = ''b'', node_x = 100, node_y = 0\<rparr>
      else \<lparr>nkey = ''c'', node_x = 0, node_y = 100\<rparr>)"

definition edge_ab :: IEdge where
  "edge_ab = \<lparr>oid = 0, source = Some ''a'', target = Some ''b'', targetPosition = None\<rparr>"

definition edge_bc :: IEdge where
  "edge_bc = \<lparr>oid = 1, source = Some ''b'', target = Some ''c'', targetPosition = None\<rparr>"

definition demo_state :: gv where
  "demo_state =
     \<lparr>heap = demo_heap,
      nodes = [0, 1, 2],
      edges = [edge_ab, edge_bc],
      nodesMap =
        [(''key-a'', \<lparr>mn_node = 0, mn_originalArrIndex = 0,
                      incomingEdges = [], outgoingEdges = [edge_ab]\<rparr>),
         (''key-b'', \<lparr>mn_node = 1, mn_originalArrIndex = 1,
                      incomingEdges = [edge_ab], outgoingEdges = [edge_bc]\<rparr>),
         (''key-c'', \<lparr>mn_node = 2, mn_originalArrIndex = 2,
                      incomingEdges = [edge_bc], outgoingEdges = []\<rparr>)],
      edgesMap =
        [(''a_b'', \<lparr>me_edge = edge_ab, me_originalArrIndex = 0\<rparr>),
         (''b_c'', \<lparr>me_edge = edge_bc, me_originalArrIndex = 1\<rparr>)],
      selectedNodeObj = Some (- 1, None),
      selectedEdgeObj = None,
      hoveredNode = False,
      hoveredNodeData = None,
      edgeEndNode = None,
      draggingEdge = False,
      draggedEdge = None,
      selectingNode = False,
      componentUpToDate = True,
      document =
        [(''node-a-container'', NodeComponent 0 0 False),
         (''node-b-container'', NodeComponent 1 1 False),
         (''node-c-container'', NodeComponent 2 2 False),
         (''edge-a-b-container'', EdgeComponent edge_ab False),
         (''edge-b-c-container'', EdgeComponent edge_bc False)],
      notified = [],
      next_oid = 2,
      nodeTimeouts = [],
      edgeTimeouts = [],
      timers = [],
      next_timer = 0\<rparr>"

definition demo_props :: props where
  "demo_props =
     \<lparr>readOnly = False, canCreateEdge = Some True,
      canDeleteNode = Some (\<lambda>_. True), canDeleteEdge = Some (\<lambda>_. True)\<rparr>"


text \<open>Whether a handler ended with a TypeError.\<close>

fun throws :: "'a outcome \<Rightarrow> bool" where
  "throws (Throws _) = True"
| "throws (Returns _) = False"

section \<open>Properties of the viewport controller\<close>



lemma modifyZoom_rejects:
  "tk vt * (1 + modK) < fst extent \<or> snd extent < tk vt * (1 + modK) \<Longrightarrow>
     modifyZoom extent cw ch (Some vt) modK modX modY dur = MZ_Return False None"
  by (simp add: modifyZoom_def Let_def)

lemma modifyZoom_accepts:
  assumes "fst extent \<le> tk vt * (1 + modK)" and "tk vt * (1 + modK) \<le> snd extent"
    and "tk vt * (1 + modK) \<noteq> 0"
  shows "modifyZoom extent cw ch (Some vt) modK modX modY dur =
           MZ_Return True
             (Some (SetZoom (Num (tk vt * (1 + modK))) (Num (tx vt + modX)) (Num (ty vt + modY)) dur))"
proof -
  let ?k = "tk vt * (1 + modK)"
  have range: "\<not> (?k < fst extent \<or> ?k > snd extent)"
    using assms(1,2) by simp
  have x: "jadd (Num (tx vt))
             (jadd (jsub (Num (cw / 2))
                      (jadd (jmul (jdiv (Num (cw / 2 - tx vt)) (Num ?k)) (Num ?k)) (Num (tx vt))))
                (Num modX)) = Num (tx vt + modX)"
    using assms(3) by (simp add: jsub_def)
  have y: "jadd (Num (ty vt))
             (jadd (jsub (Num (ch / 2))
                      (jadd (jmul (jdiv (Num (ch / 2 - ty vt)) (Num ?k)) (Num ?k)) (Num (ty vt))))
                (Num modY)) = Num (ty vt + modY)"
    using assms(3) by (simp add: jsub_def)
  show ?thesis
    unfolding modifyZoom_def Let_def option.case using range x y by simp
qed



text \<open>
  C5. A relative zoom by 10 percent of the identity transform in a viewport of 800 by
  600 is accepted and asks for the scale 1.1 with the translation unchanged: the graph
  point (400, 300) that was drawn at the centre of the viewport is drawn at (440, 330)
  afterwards, so the change is not anchored at the viewport centre. The function
  overwrites \<^verbatim>\<open>next.k\<close> with the target scale before it computes \<^verbatim>\<open>translate0\<close>, and the
  centre cancels out of the new translation.
\<close>

theorem modifyZoom_not_center_anchored:
  "modifyZoom (scaleExtent \<lparr>prop_minZoom = Some 0.15, prop_maxZoom = Some 1.5, prop_zoomDur = 750\<rparr>)
      800 600 (Some \<lparr>tk = 1, tx = 0, ty = 0\<rparr>) 0.1 0 0 0
     = MZ_Return True (Some (SetZoom (Num 1.1) (Num 0) (Num 0) 0))
   \<and> \<not> spec_anchored_at_center 800 600 \<lparr>tk = 1, tx = 0, ty = 0\<rparr> (1.1, 0, 0)
   \<and> (1.1::real) * ((800 / 2 - 0) / 1) + 0 = 440"
  by (simp add: modifyZoom_def scaleExtent_def js_or_def spec_anchored_at_center_def Let_def jsub_def)


section \<open>The viewport controller in double arithmetic\<close>











text \<open>
  The relative zoom by 10 percent of the identity transform in a viewport of 800 by 600,
  in double arithmetic: every intermediate result of the translation is exact, and the
  call asks for the double nearest to 1.1 with the translation unchanged, as in the
  exact reading of the function.
\<close>

lemma modifyZoom_binary64_tenth:
  "modifyZoom_binary64 (5404319552844595 / 36028797018963968, 1.5) 800 600 (Some \<lparr>tk = 1, tx = 0, ty = 0\<rparr>)
      (3602879701896397 / 36028797018963968) 0 0 0
     = MZ_Return True (Some (SetZoom (Num (2476979795053773 / 2251799813685248)) (Num 0) (Num 0) 0))"
proof -
  have k1: "add64 (Num 1) (Num (3602879701896397 / 36028797018963968)) = Num (2476979795053773 / 2251799813685248)"
    apply (simp add: add64_def sub64_def mul64_def div64_def rounded_def jsub_def)
    unfolding fl_def Let_def
    apply (simp add: binade.simps pow2_def)
    done
  have k2: "mul64 (Num 1) (Num (2476979795053773 / 2251799813685248)) = Num (2476979795053773 / 2251799813685248)"
    apply (simp add: add64_def sub64_def mul64_def div64_def rounded_def jsub_def)
    unfolding fl_def Let_def
    apply (simp add: binade.simps pow2_def)
    done
  have c1: "div64 (Num 800) (Num 2) = Num 400"
    apply (simp add: add64_def sub64_def mul64_def div64_def rounded_def jsub_def)
    unfolding fl_def Let_def
    apply (simp add: binade.simps pow2_def)
    done
  have c2: "div64 (Num 600) (Num 2) = Num 300"
    apply (simp add: add64_def sub64_def mul64_def div64_def rounded_def jsub_def)
    unfolding fl_def Let_def
    apply (simp add: binade.simps pow2_def)
    done
  have x1: "sub64 (Num 400) (Num 0) = Num 400"
    apply (simp add: add64_def sub64_def mul64_def div64_def rounded_def jsub_def)
    unfolding fl_def Let_def
    apply (simp add: binade.simps pow2_def)
    done
  have x2: "div64 (Num 400) (Num (2476979795053773 / 2251799813685248)) = Num (3198579280802909 / 8796093022208)"
    apply (simp add: add64_def sub64_def mul64_def div64_def rounded_def jsub_def)
    unfolding fl_def Let_def
    apply (simp add: binade.simps pow2_def)
    done
  have x3: "mul64 (Num (3198579280802909 / 8796093022208)) (Num (2476979795053773 / 2251799813685248)) = Num 400"
    apply (simp add: add64_def sub64_def mul64_def div64_def rounded_def jsub_def)
    unfolding fl_def Let_def
    apply (simp add: binade.simps pow2_def)
    done
  have x4: "add64 (Num 400) (Num 0) = Num 400"
    apply (simp add: add64_def sub64_def mul64_def div64_def rounded_def jsub_def)
    unfolding fl_def Let_def
    apply (simp add: binade.simps pow2_def)
    done
  have y1: "sub64 (Num 300) (Num 0) = Num 300"
    apply (simp add: add64_def sub64_def mul64_def div64_def rounded_def jsub_def)
    unfolding fl_def Let_def
    apply (simp add: binade.simps pow2_def)
    done
  have y2: "div64 (Num 300) (Num (2476979795053773 / 2251799813685248)) = Num (4797868921204363 / 17592186044416)"
    apply (simp add: add64_def sub64_def mul64_def div64_def rounded_def jsub_def)
    unfolding fl_def Let_def
    apply (simp add: binade.simps pow2_def)
    done
  have y3: "mul64 (Num (4797868921204363 / 17592186044416)) (Num (2476979795053773 / 2251799813685248)) = Num 300"
    apply (simp add: add64_def sub64_def mul64_def div64_def rounded_def jsub_def)
    unfolding fl_def Let_def
    apply (simp add: binade.simps pow2_def)
    done
  have y4: "add64 (Num 300) (Num 0) = Num 300"
    apply (simp add: add64_def sub64_def mul64_def div64_def rounded_def jsub_def)
    unfolding fl_def Let_def
    apply (simp add: binade.simps pow2_def)
    done
  have z1: "add64 (Num 0) (Num 0) = Num 0"
    apply (simp add: add64_def sub64_def mul64_def div64_def rounded_def jsub_def)
    unfolding fl_def Let_def
    apply (simp add: binade.simps pow2_def)
    done
  have z2: "sub64 (Num 400) (Num 400) = Num 0"
    apply (simp add: add64_def sub64_def mul64_def div64_def rounded_def jsub_def)
    unfolding fl_def Let_def
    apply (simp add: binade.simps pow2_def)
    done
  have z3: "sub64 (Num 300) (Num 300) = Num 0"
    apply (simp add: add64_def sub64_def mul64_def div64_def rounded_def jsub_def)
    unfolding fl_def Let_def
    apply (simp add: binade.simps pow2_def)
    done
  show ?thesis
    unfolding modifyZoom_binary64_def centre_roundtrip_def Let_def
    by (simp add: k1 k2 c1 c2 x1 x2 x3 x4 y1 y2 y3 y4 z1 z2 z3)
qed








section \<open>The example graph is well formed\<close>

lemma demo_state_indices:
  "nodesMap demo_state
     = linkNodesAndEdges (getNodesMap (heap demo_state) (nodes demo_state)) (edges demo_state)"
  "edgesMap demo_state = getEdgesMap (edges demo_state)"
  by (simp_all add: demo_state_def demo_heap_def edge_ab_def edge_bc_def getNodesMap_def
      getEdgesMap_def linkNodesAndEdges_def tmpl_def Let_def enumerate_eq_zip upt_rec)

lemma demo_state_registered: "timers_registered demo_state"
  by (simp add: timers_registered_def demo_state_def)


section \<open>Rendering changes the document only\<close>

lemma renderEdge_fields [simp]:
  "heap (renderEdge s eid el e) = heap s"
  "nodes (renderEdge s eid el e) = nodes s"
  "edges (renderEdge s eid el e) = edges s"
  "nodesMap (renderEdge s eid el e) = nodesMap s"
  "edgesMap (renderEdge s eid el e) = edgesMap s"
  "selectedNodeObj (renderEdge s eid el e) = selectedNodeObj s"
  "selectedEdgeObj (renderEdge s eid el e) = selectedEdgeObj s"
  "notified (renderEdge s eid el e) = notified s"
  "draggingEdge (renderEdge s eid el e) = draggingEdge s"
  "draggedEdge (renderEdge s eid el e) = draggedEdge s"
  "hoveredNode (renderEdge s eid el e) = hoveredNode s"
  "hoveredNodeData (renderEdge s eid el e) = hoveredNodeData s"
  "edgeEndNode (renderEdge s eid el e) = edgeEndNode s"
  "next_oid (renderEdge s eid el e) = next_oid s"
  "componentUpToDate (renderEdge s eid el e) = componentUpToDate s"
  "selectingNode (renderEdge s eid el e) = selectingNode s"
  by (simp_all add: renderEdge_def Let_def)

lemma syncRenderEdge_fields [simp]:
  "heap (syncRenderEdge s e) = heap s"
  "nodes (syncRenderEdge s e) = nodes s"
  "edges (syncRenderEdge s e) = edges s"
  "nodesMap (syncRenderEdge s e) = nodesMap s"
  "edgesMap (syncRenderEdge s e) = edgesMap s"
  "selectedNodeObj (syncRenderEdge s e) = selectedNodeObj s"
  "selectedEdgeObj (syncRenderEdge s e) = selectedEdgeObj s"
  "notified (syncRenderEdge s e) = notified s"
  "draggingEdge (syncRenderEdge s e) = draggingEdge s"
  "draggedEdge (syncRenderEdge s e) = draggedEdge s"
  "hoveredNode (syncRenderEdge s e) = hoveredNode s"
  "hoveredNodeData (syncRenderEdge s e) = hoveredNodeData s"
  "edgeEndNode (syncRenderEdge s e) = edgeEndNode s"
  "next_oid (syncRenderEdge s e) = next_oid s"
  "componentUpToDate (syncRenderEdge s e) = componentUpToDate s"
  "selectingNode (syncRenderEdge s e) = selectingNode s"
  by (simp_all add: syncRenderEdge_def Let_def)

lemma fold_syncRenderEdge_fields [simp]:
  "heap (fold (\<lambda>edge st. syncRenderEdge st edge) es s) = heap s"
  "nodes (fold (\<lambda>edge st. syncRenderEdge st edge) es s) = nodes s"
  "edges (fold (\<lambda>edge st. syncRenderEdge st edge) es s) = edges s"
  "nodesMap (fold (\<lambda>edge st. syncRenderEdge st edge) es s) = nodesMap s"
  "edgesMap (fold (\<lambda>edge st. syncRenderEdge st edge) es s) = edgesMap s"
  "selectedNodeObj (fold (\<lambda>edge st. syncRenderEdge st edge) es s) = selectedNodeObj s"
  "selectedEdgeObj (fold (\<lambda>edge st. syncRenderEdge st edge) es s) = selectedEdgeObj s"
  "notified (fold (\<lambda>edge st. syncRenderEdge st edge) es s) = notified s"
  "draggingEdge (fold (\<lambda>edge st. syncRenderEdge st edge) es s) = draggingEdge s"
  "draggedEdge (fold (\<lambda>edge st. syncRenderEdge st edge) es s) = draggedEdge s"
  by (induction es arbitrary: s; simp)+

lemma syncRenderConnectedEdgesFromNode_fields [simp]:
  "heap (syncRenderConnectedEdgesFromNode s entry) = heap s"
  "nodes (syncRenderConnectedEdgesFromNode s entry) = nodes s"
  "edges (syncRenderConnectedEdgesFromNode s entry) = edges s"
  "nodesMap (syncRenderConnectedEdgesFromNode s entry) = nodesMap s"
  "edgesMap (syncRenderConnectedEdgesFromNode s entry) = edgesMap s"
  "selectedNodeObj (syncRenderConnectedEdgesFromNode s entry) = selectedNodeObj s"
  "selectedEdgeObj (syncRenderConnectedEdgesFromNode s entry) = selectedEdgeObj s"
  "notified (syncRenderConnectedEdgesFromNode s entry) = notified s"
  by (simp_all add: syncRenderConnectedEdgesFromNode_def)

lemma syncRenderNode_fields [simp]:
  "heap (state_of (syncRenderNode s n i)) = heap s"
  "nodes (state_of (syncRenderNode s n i)) = nodes s"
  "edges (state_of (syncRenderNode s n i)) = edges s"
  "nodesMap (state_of (syncRenderNode s n i)) = nodesMap s"
  "edgesMap (state_of (syncRenderNode s n i)) = edgesMap s"
  "selectedNodeObj (state_of (syncRenderNode s n i)) = selectedNodeObj s"
  "selectedEdgeObj (state_of (syncRenderNode s n i)) = selectedEdgeObj s"
  "notified (state_of (syncRenderNode s n i)) = notified s"
  by (simp_all add: syncRenderNode_def renderNode_def Let_def split: option.split)

lemma state_of_and_then:
  "state_of (and_then r f) = (case r of Returns s \<Rightarrow> state_of (f s) | Throws s \<Rightarrow> s)"
  by (cases r) simp_all

lemma handleEdgeSelected_fields:
  "heap (state_of (handleEdgeSelected s a b)) = heap s"
  "nodes (state_of (handleEdgeSelected s a b)) = nodes s"
  "edges (state_of (handleEdgeSelected s a b)) = edges s"
  "nodesMap (state_of (handleEdgeSelected s a b)) = nodesMap s"
  "edgesMap (state_of (handleEdgeSelected s a b)) = edgesMap s"
  "selectedNodeObj (state_of (handleEdgeSelected s a b)) = selectedNodeObj s"
  "filter edit_notification (notified (state_of (handleEdgeSelected s a b)))
     = filter edit_notification (notified s)"
  by (simp_all add: handleEdgeSelected_def notify_def Let_def split: option.split)


section \<open>Read-only mode\<close>

text \<open>
  The handlers that test \<^verbatim>\<open>readOnly\<close>: in read-only mode \<^verbatim>\<open>handleDelete\<close> and \<^verbatim>\<open>handleNodeMove\<close>
  return at once, and \<^verbatim>\<open>handleSvgClicked\<close> creates no node (it changes neither the node
  objects nor the collections nor the indices, and it reports no edit).
\<close>

lemma readOnly_siblings:
  assumes "readOnly p"
  shows "handleDelete p s selected = Returns s
       \<and> handleNodeMove p s position index shiftKey = Returns s
       \<and> heap (state_of (handleSvgClicked p s partOfEdge dsource dtarget shift xy)) = heap s
       \<and> nodes (state_of (handleSvgClicked p s partOfEdge dsource dtarget shift xy)) = nodes s
       \<and> edges (state_of (handleSvgClicked p s partOfEdge dsource dtarget shift xy)) = edges s
       \<and> nodesMap (state_of (handleSvgClicked p s partOfEdge dsource dtarget shift xy)) = nodesMap s
       \<and> edgesMap (state_of (handleSvgClicked p s partOfEdge dsource dtarget shift xy)) = edgesMap s
       \<and> filter edit_notification
            (notified (state_of (handleSvgClicked p s partOfEdge dsource dtarget shift xy)))
           = filter edit_notification (notified s)"
proof -
  have del: "handleDelete p s selected = Returns s"
    using assms by (simp add: handleDelete_def split: option.split)
  have move: "handleNodeMove p s position index shiftKey = Returns s"
    using assms by (simp add: handleNodeMove_def Let_def)
  let ?s' = "state_of (handleSvgClicked p s partOfEdge dsource dtarget shift xy)"
  have click: "heap ?s' = heap s \<and> nodes ?s' = nodes s \<and> edges ?s' = edges s
             \<and> nodesMap ?s' = nodesMap s \<and> edgesMap ?s' = edgesMap s
             \<and> filter edit_notification (notified ?s') = filter edit_notification (notified s)"
  proof (cases partOfEdge)
    case True
    then show ?thesis
      by (simp add: handleSvgClicked_def handleEdgeSelected_fields)
  next
    case False
    show ?thesis
    proof (cases "selectingNode s")
      case True
      with \<open>\<not> partOfEdge\<close> show ?thesis
        by (simp add: handleSvgClicked_def)
    next
      case False
      let ?s2 = "notify (s\<lparr>selectedNodeObj := None\<rparr>) (OnSelectNode None)"
      have s2: "heap ?s2 = heap s \<and> nodes ?s2 = nodes s \<and> edges ?s2 = edges s
              \<and> nodesMap ?s2 = nodesMap s \<and> edgesMap ?s2 = edgesMap s
              \<and> filter edit_notification (notified ?s2) = filter edit_notification (notified s)"
        by (simp add: notify_def)
      show ?thesis
      proof (cases "case selectedNodeObj s of None \<Rightarrow> None | Some (_, n) \<Rightarrow> n")
        case None
        with \<open>\<not> partOfEdge\<close> \<open>\<not> selectingNode s\<close> assms s2 show ?thesis
          by (simp add: handleSvgClicked_def Let_def)
      next
        case (Some prev)
        let ?r = "syncRenderNode ?s2 prev
                    (case selectedNodeObj s of None \<Rightarrow> - 1 | Some (i, _) \<Rightarrow> if i = 0 then - 1 else i)"
        have eq: "?s' = state_of ?r"
          using \<open>\<not> partOfEdge\<close> \<open>\<not> selectingNode s\<close> assms Some
          by (cases ?r) (simp_all add: handleSvgClicked_def Let_def)
        show ?thesis
          unfolding eq using s2 by simp
      qed
    qed
  qed
  from del move click show ?thesis by simp
qed

text \<open>
  C1. \<^verbatim>\<open>handleNodeUpdate\<close> has no test of \<^verbatim>\<open>readOnly\<close>. In read-only mode, committing the
  position (5, 7) for the node \<open>a\<close> of the example graph (the node at index 0, drawn at
  the origin) returns normally, has written the position into the node object and has
  sent \<^verbatim>\<open>onUpdateNode\<close> for it; the same move and a deletion of the same node are no-ops
  in that mode.
\<close>

theorem handleNodeUpdate_ignores_readOnly:
  "readOnly (demo_props\<lparr>readOnly := True\<rparr>)
   \<and> heap demo_state 0 = \<lparr>nkey = ''a'', node_x = 0, node_y = 0\<rparr>
   \<and> handleNodeUpdate (demo_props\<lparr>readOnly := True\<rparr>) demo_state (5, 7) 0 False
       = Returns (demo_state\<lparr>heap := (heap demo_state)(0 := \<lparr>nkey = ''a'', node_x = 5, node_y = 7\<rparr>),
                             componentUpToDate := False,
                             notified := [OnUpdateNode 0]\<rparr>)
   \<and> handleNodeMove (demo_props\<lparr>readOnly := True\<rparr>) demo_state (5, 7) 0 False = Returns demo_state
   \<and> handleDelete (demo_props\<lparr>readOnly := True\<rparr>) demo_state (Some (NodeE 0)) = Returns demo_state"
proof -
  have h: "heap demo_state 0 = \<lparr>nkey = ''a'', node_x = 0, node_y = 0\<rparr>"
    by (simp add: demo_state_def demo_heap_def)
  have u: "handleNodeUpdate (demo_props\<lparr>readOnly := True\<rparr>) demo_state (5, 7) 0 False
       = Returns (demo_state\<lparr>heap := (heap demo_state)(0 := \<lparr>nkey = ''a'', node_x = 5, node_y = 7\<rparr>),
                             componentUpToDate := False,
                             notified := [OnUpdateNode 0]\<rparr>)"
    unfolding handleNodeUpdate_def
    by (simp add: js_index_def notify_def h) (simp add: demo_state_def demo_heap_def)
  have m: "handleNodeMove (demo_props\<lparr>readOnly := True\<rparr>) demo_state (5, 7) 0 False = Returns demo_state"
    by (simp add: handleNodeMove_def)
  have d: "handleDelete (demo_props\<lparr>readOnly := True\<rparr>) demo_state (Some (NodeE 0)) = Returns demo_state"
    by (simp add: handleDelete_def)
  from h u m d show ?thesis
    by simp
qed

section \<open>Deleting a node\<close>

lemma set_splice1_distinct:
  assumes "distinct xs" and "i < length xs"
  shows "xs ! i \<notin> set (splice1 i xs)"
proof -
  have "xs = take i xs @ xs ! i # drop (Suc i) xs"
    using assms(2) by (simp add: id_take_nth_drop)
  then have "distinct (take i xs @ xs ! i # drop (Suc i) xs)"
    using assms(1) by simp
  then show ?thesis
    by (auto simp: splice1_def)
qed

lemma removeElementFromDom_absent [simp]:
  "map_of (document (removeElementFromDom s k)) k = None"
  by (simp add: removeElementFromDom_def delete_conv')

lemma removeElementFromDom_mono:
  "map_of (document s) k = None \<Longrightarrow> map_of (document (removeElementFromDom s k')) k = None"
  by (simp add: removeElementFromDom_def delete_conv')

lemma removeElementFromDom_heap [simp]: "heap (removeElementFromDom s k) = heap s"
  by (simp add: removeElementFromDom_def)

lemma fold_removeElementFromDom_heap [simp]:
  "heap (fold (\<lambda>edge t. removeElementFromDom t (f edge)) es s) = heap s"
  by (induction es arbitrary: s) simp_all

lemma fold_removeElementFromDom_mono:
  "map_of (document s) k = None \<Longrightarrow>
     map_of (document (fold (\<lambda>edge t. removeElementFromDom t (f edge)) es s)) k = None"
  by (induction es arbitrary: s) (simp_all add: removeElementFromDom_mono)

lemma fold_removeElementFromDom_absent:
  "e \<in> set es \<Longrightarrow>
     map_of (document (fold (\<lambda>edge t. removeElementFromDom t (f edge)) es s)) (f e) = None"
proof (induction es arbitrary: s)
  case Nil
  then show ?case by simp
next
  case (Cons x es)
  show ?case
  proof (cases "e = x")
    case True
    then show ?thesis
      by (simp add: fold_removeElementFromDom_mono)
  next
    case False
    with Cons show ?thesis by simp
  qed
qed

lemma removeOldNodes_fold:
  "removeOldNodes s prevNodeMap newNodesMap =
     fold (removeOldNode prevNodeMap newNodesMap) (map fst prevNodeMap) s"
  unfolding removeOldNodes_def removeOldNode_def [abs_def] removeEdgeElement_def
    edge_containerId_def node_containerId_def
  by (rule refl)

lemma removeOldNode_mono:
  "map_of (document s) k = None \<Longrightarrow>
     map_of (document (removeOldNode prevNodeMap newNodesMap nodeId s)) k = None"
  by (simp add: removeOldNode_def Let_def removeElementFromDom_mono fold_removeElementFromDom_mono
      split: option.split)

lemma removeOldNode_heap [simp]: "heap (removeOldNode prevNodeMap newNodesMap nodeId s) = heap s"
  by (simp add: removeOldNode_def Let_def split: option.split)

lemma fold_removeOldNode_mono:
  "map_of (document s) k = None \<Longrightarrow>
     map_of (document (fold (removeOldNode prevNodeMap newNodesMap) ks s)) k = None"
  by (induction ks arbitrary: s) (simp_all add: removeOldNode_mono)

lemma removeOldNode_absent:
  assumes "map_of prevNodeMap nodeId = Some prev" and "map_of newNodesMap nodeId = None"
    and "e \<in> set (incomingEdges prev) \<union> set (outgoingEdges prev)"
  shows "map_of (document (removeOldNode prevNodeMap newNodesMap nodeId s)) (edge_containerId e) = None"
  using assms
  by (auto simp: removeOldNode_def Let_def removeElementFromDom_mono fold_removeElementFromDom_mono
      fold_removeElementFromDom_absent)

lemma fold_removeOldNode_absent:
  assumes "map_of prevNodeMap nodeId = Some prev" and "map_of newNodesMap nodeId = None"
    and "e \<in> set (incomingEdges prev) \<union> set (outgoingEdges prev)"
  shows "nodeId \<in> set ks \<Longrightarrow>
           map_of (document (fold (removeOldNode prevNodeMap newNodesMap) ks s)) (edge_containerId e) = None"
proof (induction ks arbitrary: s)
  case Nil
  then show ?case by simp
next
  case (Cons k ks)
  show ?case
  proof (cases "k = nodeId")
    case True
    then show ?thesis
      using removeOldNode_absent [OF assms]
      by (simp add: fold_removeOldNode_mono)
  next
    case False
    with Cons show ?thesis by simp
  qed
qed

lemma deleteNode_present:
  assumes "getNodeById s (Some (nkey (heap s n))) = Some entry"
  shows "deleteNode s (NodeE n) =
           Returns (s\<lparr>nodesMap := AList.delete (''key-'' @ nkey (heap s n)) (nodesMap s),
                      nodes := splice1 (mn_originalArrIndex entry) (nodes s),
                      componentUpToDate := False,
                      hoveredNode := False,
                      document := AList.delete (''node-'' @ nkey (heap s n) @ ''-container'') (document s),
                      notified := notified s
                        @ [OnDeleteNode (NodeE n) (mn_originalArrIndex entry)
                             (splice1 (mn_originalArrIndex entry) (nodes s)),
                           OnSelectNode None]\<rparr>)"
  using assms
  by (simp add: deleteNode_def entity_key_def getNodeById_def deleteNodeById_def tmpl_def
      removeElementFromDom_def notify_def Let_def)

text \<open>
  C2, as the code has it: for a node \<open>n\<close> with an entry in the node index, \<^verbatim>\<open>deleteNode\<close>
  removes the element at the recorded position from the node collection (which is \<open>n\<close>
  when the index is in step with the collection, and then \<open>n\<close> is no longer in it) and
  the entry from the node index, and leaves the edge collection and the edge index as
  they are: the edges of \<open>n\<close> stay. Only the rendered elements of the incoming and
  outgoing edges recorded for a node are removed, by \<^verbatim>\<open>removeOldNodes\<close>, when the key of
  the node has no entry in the new index.
\<close>

theorem deleteNode_keeps_edges:
  assumes "getNodeById s (Some (nkey (heap s n))) = Some entry"
  shows "(\<exists>s'. deleteNode s (NodeE n) = Returns s'
            \<and> nodes s' = splice1 (mn_originalArrIndex entry) (nodes s)
            \<and> getNodeById s' (Some (nkey (heap s n))) = None
            \<and> edges s' = edges s \<and> edgesMap s' = edgesMap s
            \<and> (distinct (nodes s) \<and> mn_originalArrIndex entry < length (nodes s)
                 \<and> nodes s ! mn_originalArrIndex entry = n \<longrightarrow> n \<notin> set (nodes s')))
       \<and> (\<forall>st prevNodeMap newNodesMap nodeId prev e.
            map_of prevNodeMap nodeId = Some prev \<and> map_of newNodesMap nodeId = None
            \<and> e \<in> set (incomingEdges prev) \<union> set (outgoingEdges prev)
            \<longrightarrow> map_of (document (removeOldNodes st prevNodeMap newNodesMap))
                  (edge_containerId e) = None)"
proof -
  have first: "\<exists>s'. deleteNode s (NodeE n) = Returns s'
            \<and> nodes s' = splice1 (mn_originalArrIndex entry) (nodes s)
            \<and> getNodeById s' (Some (nkey (heap s n))) = None
            \<and> edges s' = edges s \<and> edgesMap s' = edgesMap s
            \<and> (distinct (nodes s) \<and> mn_originalArrIndex entry < length (nodes s)
                 \<and> nodes s ! mn_originalArrIndex entry = n \<longrightarrow> n \<notin> set (nodes s'))"
    unfolding deleteNode_present [OF assms]
    using set_splice1_distinct [of "nodes s" "mn_originalArrIndex entry"]
    by (auto simp: getNodeById_def delete_conv')
  have second: "map_of (document (removeOldNodes st prevNodeMap newNodesMap))
                  (edge_containerId e) = None"
    if "map_of prevNodeMap nodeId = Some prev" and "map_of newNodesMap nodeId = None"
      and "e \<in> set (incomingEdges prev) \<union> set (outgoingEdges prev)"
    for st prevNodeMap newNodesMap nodeId prev e
  proof -
    have "nodeId \<in> set (map fst prevNodeMap)"
      using that(1) by (metis map_of_eq_None_iff option.distinct(1) set_map)
    from fold_removeOldNode_absent [OF that(1,2,3) this] show ?thesis
      by (simp add: removeOldNodes_fold)
  qed
  from first second show ?thesis by blast
qed


lemma demo_getNodeById_a:
  "getNodeById demo_state (Some (nkey (heap demo_state 0))) =
     Some \<lparr>mn_node = 0, mn_originalArrIndex = 0, incomingEdges = [], outgoingEdges = [edge_ab]\<rparr>"
  by (simp add: getNodeById_def demo_state_def demo_heap_def)

theorem deleteNode_keeps_edges_witness:
  "getNodeById demo_state (Some (nkey (heap demo_state 0))) =
     Some \<lparr>mn_node = 0, mn_originalArrIndex = 0, incomingEdges = [], outgoingEdges = [edge_ab]\<rparr>
   \<and> distinct (nodes demo_state) \<and> 0 < length (nodes demo_state) \<and> nodes demo_state ! 0 = 0
   \<and> nodes (state_of (deleteNode demo_state (NodeE 0))) = [1, 2]
   \<and> getNodeById (state_of (deleteNode demo_state (NodeE 0))) (Some ''a'') = None
   \<and> edges (state_of (deleteNode demo_state (NodeE 0))) = edges demo_state
   \<and> edgesMap (state_of (deleteNode demo_state (NodeE 0))) = edgesMap demo_state
   \<and> map_of (nodesMap demo_state) ''key-a''
       = Some \<lparr>mn_node = 0, mn_originalArrIndex = 0, incomingEdges = [], outgoingEdges = [edge_ab]\<rparr>
   \<and> map_of (nodesMap (state_of (deleteNode demo_state (NodeE 0)))) ''key-a'' = None
   \<and> map_of (document (removeOldNodes (state_of (deleteNode demo_state (NodeE 0)))
                 (nodesMap demo_state) (nodesMap (state_of (deleteNode demo_state (NodeE 0))))))
        (edge_containerId edge_ab) = None"
proof -
  let ?entry = "\<lparr>mn_node = 0, mn_originalArrIndex = 0, incomingEdges = [],
                  outgoingEdges = [edge_ab]\<rparr>"
  note inst = deleteNode_keeps_edges [OF demo_getNodeById_a]
  from inst obtain s' where s': "deleteNode demo_state (NodeE 0) = Returns s'"
    and n: "nodes s' = splice1 (mn_originalArrIndex ?entry) (nodes demo_state)"
    and g: "getNodeById s' (Some (nkey (heap demo_state 0))) = None"
    and e: "edges s' = edges demo_state" "edgesMap s' = edgesMap demo_state"
    by blast
  have key: "nkey (heap demo_state 0) = ''a''"
    by (simp add: demo_state_def demo_heap_def)
  have prev: "map_of (nodesMap demo_state) ''key-a'' = Some ?entry"
    by (simp add: demo_state_def)
  have new: "map_of (nodesMap s') ''key-a'' = None"
    using g by (simp add: getNodeById_def key)
  have "edge_ab \<in> set (incomingEdges ?entry) \<union> set (outgoingEdges ?entry)"
    by simp
  with inst prev new
  have dom: "map_of (document (removeOldNodes s' (nodesMap demo_state) (nodesMap s')))
               (edge_containerId edge_ab) = None"
    by blast
  have n': "nodes s' = [1, 2]"
    using n by (simp add: splice1_def demo_state_def)
  show ?thesis
    using s' n' g e prev new dom demo_getNodeById_a
    by (simp add: key) (simp add: demo_state_def)
qed

text \<open>
  The claim C2 as stated fails: after the node \<open>a\<close> of the example graph is deleted, the
  edge from \<open>a\<close> to \<open>b\<close> is still in the edge collection and in the edge index, although
  \<open>a\<close> is no longer in the node collection.
\<close>

theorem deleteNode_keeps_edges_counterexample:
  "getNodeById demo_state (Some (nkey (heap demo_state 0))) \<noteq> None
   \<and> nodes (state_of (deleteNode demo_state (NodeE 0))) = [1, 2]
   \<and> edges (state_of (deleteNode demo_state (NodeE 0))) = [edge_ab, edge_bc]
   \<and> source edge_ab = Some (nkey (heap demo_state 0))
   \<and> map_of (edgesMap (state_of (deleteNode demo_state (NodeE 0)))) ''a_b'' \<noteq> None"
  by (simp add: deleteNode_def entity_key_def getNodeById_def deleteNodeById_def tmpl_def
      removeElementFromDom_def notify_def Let_def splice1_def demo_state_def demo_heap_def
      edge_ab_def edge_bc_def)


section \<open>Creating an edge\<close>

lemma removeElementFromDom_fields [simp]:
  "nodes (removeElementFromDom s k) = nodes s"
  "edges (removeElementFromDom s k) = edges s"
  "nodesMap (removeElementFromDom s k) = nodesMap s"
  "edgesMap (removeElementFromDom s k) = edgesMap s"
  "selectedNodeObj (removeElementFromDom s k) = selectedNodeObj s"
  "selectedEdgeObj (removeElementFromDom s k) = selectedEdgeObj s"
  "notified (removeElementFromDom s k) = notified s"
  "hoveredNodeData (removeElementFromDom s k) = hoveredNodeData s"
  "edgeEndNode (removeElementFromDom s k) = edgeEndNode s"
  "draggingEdge (removeElementFromDom s k) = draggingEdge s"
  "draggedEdge (removeElementFromDom s k) = draggedEdge s"
  "next_oid (removeElementFromDom s k) = next_oid s"
  by (simp_all add: removeElementFromDom_def)

lemma fold_update_keys:
  "map_of (fold (\<lambda>(i, e) m. AList.update (f e) (g i e) m) xs m0) k \<noteq> None
     \<longleftrightarrow> k \<in> f ` snd ` set xs \<or> map_of m0 k \<noteq> None"
  by (induction xs arbitrary: m0) (auto simp: update_conv' split: prod.splits)

lemma getEdgesMap_indexed:
  assumes "e \<in> set es"
  shows "map_of (getEdgesMap es) (tmpl (source e) @ ''_'' @ tmpl (target e)) \<noteq> None"
proof -
  have "e \<in> snd ` set (enumerate 0 es)"
    using assms by (metis list.set_map map_snd_enumerate)
  then have "tmpl (source e) @ ''_'' @ tmpl (target e)
               \<in> (\<lambda>e. tmpl (source e) @ ''_'' @ tmpl (target e)) ` snd ` set (enumerate 0 es)"
    by (rule imageI)
  then show ?thesis
    unfolding getEdgesMap_def
    using fold_update_keys [of "\<lambda>e. tmpl (source e) @ ''_'' @ tmpl (target e)"
        "\<lambda>i e. \<lparr>me_edge = e, me_originalArrIndex = i\<rparr>" "enumerate 0 es" "[]"]
    by blast
qed

lemma createNewEdge_rejects:
  assumes "hoveredNodeData s = Some hovered" and "edgeEndNode s = Some endNode"
    and "map_of (edgesMap s) (nkey (heap s hovered) @ ''_'' @ nkey (heap s endNode)) \<noteq> None
         \<or> map_of (edgesMap s) (nkey (heap s endNode) @ ''_'' @ nkey (heap s hovered)) \<noteq> None"
  shows "createNewEdge p s = Returns (removeElementFromDom s ''edge-custom-container'')"
  using assms by (auto simp: createNewEdge_def Let_def)

text \<open>
  C3, as the code has it: \<^verbatim>\<open>createNewEdge\<close> never changes the edge collection or the edge
  index. It sends \<^verbatim>\<open>onCreateEdge\<close> exactly when an end node is set, the hovered (source)
  node is a different node object, \<^verbatim>\<open>canCreateEdge\<close> returns true and the edge index has
  no entry for the pair of keys in either direction, and sends nothing otherwise. So when
  the edge index is the one built from the edge collection, an attempt for a pair that
  the collection already joins by an edge, in either direction, only removes the transient
  edge element: the collection is unchanged and nobody is notified.
\<close>

theorem createNewEdge_gate:
  "edges (state_of (createNewEdge p s)) = edges s
   \<and> edgesMap (state_of (createNewEdge p s)) = edgesMap s
   \<and> notified (state_of (createNewEdge p s)) =
       (case edgeEndNode s of
          None \<Rightarrow> notified s
        | Some endNode \<Rightarrow>
            (case hoveredNodeData s of
               None \<Rightarrow> notified s
             | Some hovered \<Rightarrow>
                 if hovered \<noteq> endNode \<and> canCreateEdge p = Some True
                    \<and> map_of (edgesMap s) (nkey (heap s hovered) @ ''_'' @ nkey (heap s endNode)) = None
                    \<and> map_of (edgesMap s) (nkey (heap s endNode) @ ''_'' @ nkey (heap s hovered)) = None
                 then notified s @ [OnCreateEdge hovered endNode]
                 else notified s))
   \<and> (\<forall>hovered endNode e.
         hoveredNodeData s = Some hovered \<and> edgeEndNode s = Some endNode
         \<and> edgesMap s = getEdgesMap (edges s) \<and> e \<in> set (edges s)
         \<and> (source e = Some (nkey (heap s hovered)) \<and> target e = Some (nkey (heap s endNode))
            \<or> source e = Some (nkey (heap s endNode)) \<and> target e = Some (nkey (heap s hovered)))
         \<longrightarrow> createNewEdge p s = Returns (removeElementFromDom s ''edge-custom-container''))"
proof -
  have frame: "edges (state_of (createNewEdge p s)) = edges s
             \<and> edgesMap (state_of (createNewEdge p s)) = edgesMap s"
    by (auto simp: createNewEdge_def Let_def notify_def split: option.split)
  have sent: "notified (state_of (createNewEdge p s)) =
       (case edgeEndNode s of
          None \<Rightarrow> notified s
        | Some endNode \<Rightarrow>
            (case hoveredNodeData s of
               None \<Rightarrow> notified s
             | Some hovered \<Rightarrow>
                 if hovered \<noteq> endNode \<and> canCreateEdge p = Some True
                    \<and> map_of (edgesMap s) (nkey (heap s hovered) @ ''_'' @ nkey (heap s endNode)) = None
                    \<and> map_of (edgesMap s) (nkey (heap s endNode) @ ''_'' @ nkey (heap s hovered)) = None
                 then notified s @ [OnCreateEdge hovered endNode]
                 else notified s))"
    by (auto simp: createNewEdge_def Let_def notify_def split: option.split)
  have rej: "createNewEdge p s = Returns (removeElementFromDom s ''edge-custom-container'')"
    if "hoveredNodeData s = Some hovered" and "edgeEndNode s = Some endNode"
      and "edgesMap s = getEdgesMap (edges s)" and "e \<in> set (edges s)"
      and "source e = Some (nkey (heap s hovered)) \<and> target e = Some (nkey (heap s endNode))
           \<or> source e = Some (nkey (heap s endNode)) \<and> target e = Some (nkey (heap s hovered))"
    for hovered endNode e
  proof -
    have "map_of (edgesMap s) (tmpl (source e) @ ''_'' @ tmpl (target e)) \<noteq> None"
      unfolding that(3) using that(4) by (rule getEdgesMap_indexed)
    with that(5)
    have "map_of (edgesMap s) (nkey (heap s hovered) @ ''_'' @ nkey (heap s endNode)) \<noteq> None
         \<or> map_of (edgesMap s) (nkey (heap s endNode) @ ''_'' @ nkey (heap s hovered)) \<noteq> None"
      by (auto simp: tmpl_def)
    with that(1,2) show ?thesis
      by (rule createNewEdge_rejects)
  qed
  from frame sent rej show ?thesis
    by blast
qed

text \<open>
  The scenario of the specification: the graph has the edge from \<open>a\<close> to \<open>b\<close>, and an edge
  is drawn from \<open>b\<close> to \<open>a\<close>.
\<close>

theorem createNewEdge_gate_witness:
  "hoveredNodeData (demo_state\<lparr>hoveredNodeData := Some 1, edgeEndNode := Some 0\<rparr>) = Some 1
   \<and> edgeEndNode (demo_state\<lparr>hoveredNodeData := Some 1, edgeEndNode := Some 0\<rparr>) = Some 0
   \<and> edgesMap demo_state = getEdgesMap (edges demo_state)
   \<and> edge_ab \<in> set (edges demo_state)
   \<and> source edge_ab = Some (nkey (heap demo_state 0))
   \<and> target edge_ab = Some (nkey (heap demo_state 1))
   \<and> createNewEdge demo_props (demo_state\<lparr>hoveredNodeData := Some 1, edgeEndNode := Some 0\<rparr>)
       = Returns (demo_state\<lparr>hoveredNodeData := Some 1, edgeEndNode := Some 0\<rparr>)
   \<and> edges (state_of (createNewEdge demo_props
               (demo_state\<lparr>hoveredNodeData := Some 1, edgeEndNode := Some 0\<rparr>)))
       = [edge_ab, edge_bc]
   \<and> notified (state_of (createNewEdge demo_props
               (demo_state\<lparr>hoveredNodeData := Some 1, edgeEndNode := Some 0\<rparr>))) = []"
proof -
  let ?s = "demo_state\<lparr>hoveredNodeData := Some 1, edgeEndNode := Some 0\<rparr>"
  have h: "hoveredNodeData ?s = Some 1" "edgeEndNode ?s = Some 0"
    by simp_all
  have idx: "edgesMap ?s = getEdgesMap (edges ?s)"
    using demo_state_indices(2) by simp
  have mem: "edge_ab \<in> set (edges ?s)"
    by (simp add: demo_state_def)
  have ends: "source edge_ab = Some (nkey (heap ?s 0))" "target edge_ab = Some (nkey (heap ?s 1))"
    by (simp_all add: demo_state_def demo_heap_def edge_ab_def)
  have dom: "removeElementFromDom ?s ''edge-custom-container'' = ?s"
    by (simp add: removeElementFromDom_def demo_state_def)
  have "createNewEdge demo_props ?s = Returns (removeElementFromDom ?s ''edge-custom-container'')"
    using createNewEdge_gate [of demo_props ?s] h idx mem ends by blast
  then have r: "createNewEdge demo_props ?s = Returns ?s"
    by (simp only: dom)
  have base: "edgesMap demo_state = getEdgesMap (edges demo_state)"
    "edge_ab \<in> set (edges demo_state)"
    "source edge_ab = Some (nkey (heap demo_state 0))"
    "target edge_ab = Some (nkey (heap demo_state 1))"
    using idx mem ends by simp_all
  show ?thesis
    unfolding r using base by (simp add: demo_state_def)
qed

text \<open>
  The claim C3 as stated fails in its conclusion: two successive attempts to draw an edge
  from \<open>a\<close> to \<open>c\<close> in the example graph, where no edge joins the two, both send
  \<^verbatim>\<open>onCreateEdge\<close>, and the edge collection holds no edge between \<open>a\<close> and \<open>c\<close> afterwards, not
  one: adding the edge is left to the caller.
\<close>

theorem createNewEdge_gate_counterexample:
  "edges (state_of (createNewEdge demo_props (state_of (createNewEdge demo_props
      (demo_state\<lparr>hoveredNodeData := Some 0, edgeEndNode := Some 2\<rparr>))))) = [edge_ab, edge_bc]
   \<and> filter (\<lambda>e. source e = Some ''a'' \<and> target e = Some ''c''
                \<or> source e = Some ''c'' \<and> target e = Some ''a'') [edge_ab, edge_bc] = []
   \<and> notified (state_of (createNewEdge demo_props (state_of (createNewEdge demo_props
      (demo_state\<lparr>hoveredNodeData := Some 0, edgeEndNode := Some 2\<rparr>)))))
       = [OnCreateEdge 0 2, OnCreateEdge 0 2]"
  by (simp add: createNewEdge_def Let_def notify_def removeElementFromDom_def
      demo_state_def demo_heap_def demo_props_def edge_ab_def edge_bc_def)


section \<open>Selection\<close>

lemma node_containerId_inject [simp]: "node_containerId k = node_containerId k' \<longleftrightarrow> k = k'"
  by (simp add: node_containerId_def)

lemma renderEdge_document_other:
  "k \<noteq> eid @ ''-container'' \<Longrightarrow>
     map_of (document (renderEdge s eid el e)) k = map_of (document s) k"
  by (auto simp: renderEdge_def Let_def update_conv' map_add_def split: option.split)


lemma syncRenderEdge_node_container [simp]:
  "map_of (document (syncRenderEdge s e)) (node_containerId k) = map_of (document s) (node_containerId k)"
  by (simp add: syncRenderEdge_def Let_def renderEdge_document_other node_containerId_def)

lemma fold_syncRenderEdge_node_container [simp]:
  "map_of (document (fold (\<lambda>edge st. syncRenderEdge st edge) es s)) (node_containerId k)
     = map_of (document s) (node_containerId k)"
  by (induction es arbitrary: s) simp_all

lemma syncRenderConnectedEdgesFromNode_node_container [simp]:
  "map_of (document (syncRenderConnectedEdgesFromNode s entry)) (node_containerId k)
     = map_of (document s) (node_containerId k)"
  by (simp add: syncRenderConnectedEdgesFromNode_def)












section \<open>Ending an edge retarget\<close>

lemma removeElementFromDom_getNodeById [simp]:
  "getNodeById (removeElementFromDom s k) nid = getNodeById s nid"
  by (simp add: getNodeById_def)

lemma syncRenderEdge_getNodeById [simp]:
  "getNodeById (syncRenderEdge s e) nid = getNodeById s nid"
  by (simp add: getNodeById_def)


text \<open>
  The edge that \<^verbatim>\<open>handleZoomEnd\<close> renders and reports: with a hovered end node its target is
  the key of that node, whether \<^verbatim>\<open>canSwap\<close> holds or not, because \<^verbatim>\<open>canSwap\<close> fails only
  when the edge has that target already.
\<close>

lemma handleZoomEnd_swapped:
  "source (case endNode of
             None \<Rightarrow> d\<lparr>oid := n\<rparr>
           | Some h \<Rightarrow> if canSwap s a (Some h) d
                       then d\<lparr>oid := n, target := Some (nkey (heap s h))\<rparr> else d\<lparr>oid := n\<rparr>)
     = source d"
  "target (case endNode of
             None \<Rightarrow> d\<lparr>oid := n\<rparr>
           | Some h \<Rightarrow> if canSwap s a (Some h) d
                       then d\<lparr>oid := n, target := Some (nkey (heap s h))\<rparr> else d\<lparr>oid := n\<rparr>)
     = (case endNode of None \<Rightarrow> target d | Some h \<Rightarrow> Some (nkey (heap s h)))"
  by (auto simp: canSwap_def split: option.split)








section \<open>Missing index entries\<close>

text \<open>
  \<^verbatim>\<open>handleNodeMove\<close> tests the index entry that it looks up: without an entry it has
  written the position into the node and returns.
\<close>

lemma handleNodeMove_no_entry:
  assumes "\<not> readOnly p" and "js_index (nodes s) index = Some n"
    and "getNodeById s (Some (nkey (heap s n))) = None"
  shows "handleNodeMove p s position index False =
           Returns (s\<lparr>heap := (heap s)(n := (heap s n)\<lparr>node_x := fst position,
                                                         node_y := snd position\<rparr>)\<rparr>)"
  using assms by (simp add: handleNodeMove_def Let_def getNodeById_def)

lemma demo_delete_a:
  "state_of (deleteNode demo_state (NodeE 0)) =
     demo_state\<lparr>nodesMap := AList.delete ''key-a'' (nodesMap demo_state),
                nodes := [1, 2],
                componentUpToDate := False,
                hoveredNode := False,
                document := AList.delete ''node-a-container'' (document demo_state),
                notified := [OnDeleteNode (NodeE 0) 0 [1, 2], OnSelectNode None]\<rparr>"
  unfolding deleteNode_present [OF demo_getNodeById_a]
  by (simp add: demo_state_def demo_heap_def splice1_def)

text \<open>
  C9. \<^verbatim>\<open>deleteNode\<close>, \<^verbatim>\<open>deleteEdge\<close> and \<^verbatim>\<open>handleZoomEnd\<close> read a property of the index entry
  that they look up without testing that there is one. In the example graph, deleting
  the node \<open>c\<close> a second time and deleting the edge from \<open>b\<close> to \<open>c\<close> a second time, when
  the index has no entry for them any more, end with a TypeError (in the state in which
  they started), also through \<^verbatim>\<open>handleDelete\<close>; and so does the end of the retarget of an
  edge whose source node has been deleted, after it has ended the drag.
\<close>

theorem missing_entry_TypeError:
  "getNodeById (state_of (deleteNode demo_state (NodeE 2))) (Some ''c'') = None
   \<and> deleteNode (state_of (deleteNode demo_state (NodeE 2))) (NodeE 2)
       = Throws (state_of (deleteNode demo_state (NodeE 2)))
   \<and> handleDelete demo_props (state_of (deleteNode demo_state (NodeE 2))) (Some (NodeE 2))
       = Throws (state_of (deleteNode demo_state (NodeE 2)))
   \<and> getEdgeBySourceTarget (state_of (deleteEdge demo_state edge_bc)) (Some ''b'') (Some ''c'') = None
   \<and> deleteEdge (state_of (deleteEdge demo_state edge_bc)) edge_bc
       = Throws (state_of (deleteEdge demo_state edge_bc))
   \<and> handleDelete demo_props (state_of (deleteEdge demo_state edge_bc)) (Some (EdgeE edge_bc))
       = Throws (state_of (deleteEdge demo_state edge_bc))
   \<and> getNodeById (state_of (deleteNode demo_state (NodeE 0))) (Some ''a'') = None
   \<and> throws (handleZoomEnd ((state_of (deleteNode demo_state (NodeE 0)))
                \<lparr>draggingEdge := True, draggedEdge := Some edge_ab\<rparr>))
   \<and> \<not> draggingEdge (state_of (handleZoomEnd ((state_of (deleteNode demo_state (NodeE 0)))
                \<lparr>draggingEdge := True, draggedEdge := Some edge_ab\<rparr>)))"
proof -
  let ?sc = "state_of (deleteNode demo_state (NodeE 2))"
  let ?se = "state_of (deleteEdge demo_state edge_bc)"
  let ?sa = "state_of (deleteNode demo_state (NodeE 0))"
  have c: "getNodeById ?sc (Some ''c'') = None"
    by (simp add: deleteNode_def entity_key_def getNodeById_def deleteNodeById_def tmpl_def
        removeElementFromDom_def notify_def Let_def demo_state_def demo_heap_def)
  have kc: "entity_key ?sc (NodeE 2) = Some ''c''"
    by (simp add: deleteNode_def entity_key_def getNodeById_def deleteNodeById_def tmpl_def
        removeElementFromDom_def notify_def Let_def demo_state_def demo_heap_def)
  have c': "deleteNode ?sc (NodeE 2) = Throws ?sc"
    by (simp add: deleteNode_def [of ?sc] kc c)
  have perm: "\<not> readOnly demo_props" "canDeleteNode demo_props = Some (\<lambda>_. True)"
    "canDeleteEdge demo_props = Some (\<lambda>_. True)"
    by (simp_all add: demo_props_def)
  have bc: "source edge_bc = Some ''b''" "target edge_bc = Some ''c''"
    by (simp_all add: edge_bc_def)
  have src: "\<not> truthy (entity_source (NodeE 2))" "truthy (entity_source (EdgeE edge_bc))"
    by (simp_all add: entity_source_def truthy_def bc)
  have c'': "handleDelete demo_props ?sc (Some (NodeE 2)) = Throws ?sc"
    unfolding handleDelete_def using perm src(1) c' by simp
  have e: "getEdgeBySourceTarget ?se (Some ''b'') (Some ''c'') = None"
    by (simp add: deleteEdge_def getEdgeBySourceTarget_def deleteEdgeBySourceTarget_def truthy_def
        tmpl_def removeElementFromDom_def notify_def Let_def demo_state_def edge_bc_def)
  have e': "deleteEdge ?se edge_bc = Throws ?se"
    using e by (simp add: deleteEdge_def [of ?se] truthy_def bc)
  have e'': "handleDelete demo_props ?se (Some (EdgeE edge_bc)) = Throws ?se"
    unfolding handleDelete_def using perm src(2) e' by simp
  have a: "getNodeById ?sa (Some ''a'') = None"
    unfolding demo_delete_a by (simp add: getNodeById_def demo_state_def)
  have z: "handleZoomEnd (?sa\<lparr>draggingEdge := True, draggedEdge := Some edge_ab\<rparr>) =
             Throws ((removeElementFromDom
                        (?sa\<lparr>draggingEdge := True, draggedEdge := Some edge_ab,
                              next_oid := Suc (next_oid ?sa)\<rparr>) ''edge-custom-container'')
                       \<lparr>draggedEdge := None, draggingEdge := False\<rparr>)"
    using a by (simp add: handleZoomEnd_def Let_def getNodeById_def edge_ab_def)
  have a': "throws (handleZoomEnd (?sa\<lparr>draggingEdge := True, draggedEdge := Some edge_ab\<rparr>))"
    "\<not> draggingEdge (state_of (handleZoomEnd (?sa\<lparr>draggingEdge := True, draggedEdge := Some edge_ab\<rparr>)))"
    unfolding z by simp_all
  from c c' c'' e e' e'' a a' show ?thesis
    by (intro conjI)
qed

text \<open>
  The three handlers end with a TypeError on these inputs.
\<close>

theorem missing_entry_TypeError_witness:
  "throws (deleteNode (state_of (deleteNode demo_state (NodeE 2))) (NodeE 2))
   \<and> throws (deleteEdge (state_of (deleteEdge demo_state edge_bc)) edge_bc)
   \<and> throws (handleZoomEnd ((state_of (deleteNode demo_state (NodeE 0)))
                \<lparr>draggingEdge := True, draggedEdge := Some edge_ab\<rparr>))"
  using missing_entry_TypeError by simp

section \<open>Scheduled redraws\<close>

lemma asyncRenderNode_unfold:
  "asyncRenderNode s node i =
     s\<lparr>timers := filter (\<lambda>(h, t). Some h \<noteq> map_of (nodeTimeouts s) (''nodes-'' @ nkey (heap s node)))
                   (timers s) @ [(next_timer s, RenderNodeTask node i)],
       next_timer := Suc (next_timer s),
       nodeTimeouts := AList.update (''nodes-'' @ nkey (heap s node)) (next_timer s) (nodeTimeouts s)\<rparr>"
  by (simp add: asyncRenderNode_def clearTimeout_def setTimeout_def Let_def)

lemma asyncRenderEdge_unfold:
  "truthy (source e) \<Longrightarrow> truthy (target e) \<Longrightarrow>
   asyncRenderEdge s e =
     s\<lparr>timers := filter (\<lambda>(h, t). Some h \<noteq> map_of (edgeTimeouts s)
                                        (''edges-'' @ tmpl (source e) @ ''-'' @ tmpl (target e)))
                   (timers s) @ [(next_timer s, RenderEdgeTask e)],
       next_timer := Suc (next_timer s),
       edgeTimeouts := AList.update (''edges-'' @ tmpl (source e) @ ''-'' @ tmpl (target e))
                         (next_timer s) (edgeTimeouts s)\<rparr>"
  by (simp add: asyncRenderEdge_def clearTimeout_def setTimeout_def Let_def)

lemma task_timeoutId_heap: "heap s' = heap s \<Longrightarrow> task_timeoutId s' t = task_timeoutId s t"
  by (cases t) simp_all

lemma distinct_values_key:
  assumes "distinct (map snd al)" and "(k, v) \<in> set al" and "(k', v) \<in> set al"
  shows "k = k'"
proof -
  from assms(1) have "inj_on snd (set al)"
    by (simp add: distinct_map)
  from inj_onD [OF this _ assms(2,3)] show ?thesis
    by simp
qed

lemma update_values: "snd ` set (AList.update k v al) \<subseteq> insert v (snd ` set al)"
  by (induction al) auto

lemma distinct_update_values:
  "distinct (map snd al) \<Longrightarrow> v \<notin> snd ` set al \<Longrightarrow> distinct (map snd (AList.update k v al))"
proof (induction al)
  case Nil
  then show ?case by simp
next
  case (Cons p al)
  obtain k' v' where p: "p = (k', v')"
    by (cases p)
  show ?case
  proof (cases "k' = k")
    case True
    with Cons.prems show ?thesis
      by (simp add: p)
  next
    case False
    from Cons.prems have "v' \<noteq> v" "v' \<notin> snd ` set al"
      by (auto simp: p)
    with update_values [of k v al] have "v' \<notin> snd ` set (AList.update k v al)"
      by auto
    with Cons False show ?thesis
      by (simp add: p)
  qed
qed

text \<open>
  The two tables after a fresh handle has been recorded in one of them: still no handle
  is recorded twice, and every recorded handle is below the next one.
\<close>

lemma tables_update:
  assumes "distinct (map snd xs @ map snd ys)" and "list_all (\<lambda>h. h < n) (map snd xs @ map snd ys)"
  shows "distinct (map snd (AList.update k n xs) @ map snd ys)"
    and "distinct (map snd xs @ map snd (AList.update k n ys))"
    and "list_all (\<lambda>h. h < Suc n) (map snd (AList.update k n xs) @ map snd ys)"
    and "list_all (\<lambda>h. h < Suc n) (map snd xs @ map snd (AList.update k n ys))"
proof -
  from assms(2) have below: "\<And>h. h \<in> snd ` set xs \<Longrightarrow> h < n" "\<And>h. h \<in> snd ` set ys \<Longrightarrow> h < n"
    by (auto simp: list_all_iff)
  then have fresh: "n \<notin> snd ` set xs" "n \<notin> snd ` set ys"
    by blast+
  from below have below': "\<And>h. h \<in> insert n (snd ` set xs) \<Longrightarrow> h < Suc n"
    "\<And>h. h \<in> insert n (snd ` set ys) \<Longrightarrow> h < Suc n"
    "\<And>h. h \<in> snd ` set xs \<Longrightarrow> h < Suc n" "\<And>h. h \<in> snd ` set ys \<Longrightarrow> h < Suc n"
    by (auto simp: less_Suc_eq)
  from assms(1) have d: "distinct (map snd xs)" "distinct (map snd ys)"
    and disj: "snd ` set xs \<inter> snd ` set ys = {}"
    by simp_all
  have ux: "snd ` set (AList.update k n xs) \<subseteq> insert n (snd ` set xs)"
    and uy: "snd ` set (AList.update k n ys) \<subseteq> insert n (snd ` set ys)"
    by (rule update_values)+
  show "distinct (map snd (AList.update k n xs) @ map snd ys)"
    using distinct_update_values [OF d(1) fresh(1), of k] d(2) ux disj fresh(2) by auto
  show "distinct (map snd xs @ map snd (AList.update k n ys))"
    using distinct_update_values [OF d(2) fresh(2), of k] d(1) uy disj fresh(1) by auto
  have "\<And>h. h \<in> snd ` set (AList.update k n xs) \<Longrightarrow> h < Suc n"
    using ux below'(1) by blast
  then show "list_all (\<lambda>h. h < Suc n) (map snd (AList.update k n xs) @ map snd ys)"
    using below'(4) by (auto simp: list_all_iff)
  have "\<And>h. h \<in> snd ` set (AList.update k n ys) \<Longrightarrow> h < Suc n"
    using uy below'(2) by blast
  then show "list_all (\<lambda>h. h < Suc n) (map snd xs @ map snd (AList.update k n ys))"
    using below'(3) by (auto simp: list_all_iff)
qed

text \<open>
  In a registered state the handle recorded under a timeout id belongs to no pending
  redraw with another timeout id.
\<close>

lemma registered_other:
  assumes inv: "timers_registered s" and mem: "(h, t) \<in> set (timers s)"
    and ne: "task_timeoutId s t \<noteq> task_timeoutId s new"
  shows "Some h \<noteq> task_handle s new"
proof
  assume eq: "Some h = task_handle s new"
  from inv mem have ht: "task_handle s t = Some h"
    by (auto simp: timers_registered_def list_all_iff)
  from inv have d: "distinct (map snd (nodeTimeouts s) @ map snd (edgeTimeouts s))"
    by (simp add: timers_registered_def)
  then have dn: "distinct (map snd (nodeTimeouts s))" and de: "distinct (map snd (edgeTimeouts s))"
    and disj: "snd ` set (nodeTimeouts s) \<inter> snd ` set (edgeTimeouts s) = {}"
    by simp_all
  show False
  proof (cases t)
    case tn: (RenderNodeTask n i)
    show ?thesis
    proof (cases new)
      case (RenderNodeTask n' i')
      from ht eq have "(task_timeoutId s t, h) \<in> set (nodeTimeouts s)"
        "(task_timeoutId s new, h) \<in> set (nodeTimeouts s)"
        by (simp_all add: tn RenderNodeTask map_of_SomeD)
      from distinct_values_key [OF dn this] ne show False
        by simp
    next
      case (RenderEdgeTask e')
      from ht eq have "(task_timeoutId s t, h) \<in> set (nodeTimeouts s)"
        "(task_timeoutId s new, h) \<in> set (edgeTimeouts s)"
        by (simp_all add: tn RenderEdgeTask map_of_SomeD)
      then have "h \<in> snd ` set (nodeTimeouts s) \<inter> snd ` set (edgeTimeouts s)"
        by force
      with disj show False
        by simp
    qed
  next
    case te: (RenderEdgeTask e)
    show ?thesis
    proof (cases new)
      case (RenderNodeTask n' i')
      from ht eq have "(task_timeoutId s t, h) \<in> set (edgeTimeouts s)"
        "(task_timeoutId s new, h) \<in> set (nodeTimeouts s)"
        by (simp_all add: te RenderNodeTask map_of_SomeD)
      then have "h \<in> snd ` set (nodeTimeouts s) \<inter> snd ` set (edgeTimeouts s)"
        by force
      with disj show False
        by simp
    next
      case (RenderEdgeTask e')
      from ht eq have "(task_timeoutId s t, h) \<in> set (edgeTimeouts s)"
        "(task_timeoutId s new, h) \<in> set (edgeTimeouts s)"
        by (simp_all add: te RenderEdgeTask map_of_SomeD)
      from distinct_values_key [OF de this] ne show False
        by simp
    qed
  qed
qed

text \<open>
  A step that cancels the handle recorded under a timeout id in one of the two tables,
  appends a task with that timeout id under the next handle, and records the handle:
  the new task is the only pending redraw under its timeout id, and the pending redraws
  under every other timeout id are as before.
\<close>

lemma reschedule_step:
  assumes inv: "timers_registered s"
    and heap': "heap s' = heap s"
    and timers': "timers s' = filter (\<lambda>(h, t). Some h \<noteq> task_handle s new) (timers s)
                               @ [(next_timer s, new)]"
    and handle': "\<And>t. task_handle s' t =
                    (if task_timeoutId s t = task_timeoutId s new then Some (next_timer s)
                     else task_handle s t)"
    and same: "\<And>t. task_timeoutId s t = task_timeoutId s new \<Longrightarrow> task_handle s t = task_handle s new"
    and tables': "distinct (map snd (nodeTimeouts s') @ map snd (edgeTimeouts s'))"
      "list_all (\<lambda>h. h < next_timer s') (map snd (nodeTimeouts s') @ map snd (edgeTimeouts s'))"
  shows "timers_registered s'
       \<and> pending_redraws s' timeoutId =
           (if task_timeoutId s new = timeoutId then [new] else pending_redraws s timeoutId)"
proof -
  let ?keep = "filter (\<lambda>(h, t). Some h \<noteq> task_handle s new) (timers s)"
  from inv have dist: "distinct (map fst (timers s))"
    and reg: "\<And>h t. (h, t) \<in> set (timers s) \<Longrightarrow> task_handle s t = Some h"
    and below: "\<And>h. h \<in> snd ` set (nodeTimeouts s) \<union> snd ` set (edgeTimeouts s) \<Longrightarrow> h < next_timer s"
    by (auto simp: timers_registered_def list_all_iff)
  have pending_below: "h < next_timer s" if "(h, t) \<in> set (timers s)" for h t
  proof -
    from reg [OF that] have "h \<in> snd ` set (nodeTimeouts s) \<union> snd ` set (edgeTimeouts s)"
      by (cases t) (force dest: map_of_SomeD)+
    then show ?thesis
      by (rule below)
  qed
  have keep_sub: "set ?keep \<subseteq> set (timers s)"
    by auto
  have keep_other: "task_timeoutId s t \<noteq> task_timeoutId s new" if "(h, t) \<in> set ?keep" for h t
  proof
    assume "task_timeoutId s t = task_timeoutId s new"
    then have "task_handle s t = task_handle s new"
      by (rule same)
    moreover from that have "(h, t) \<in> set (timers s)" and "Some h \<noteq> task_handle s new"
      by auto
    ultimately show False
      using reg [of h t] by simp
  qed
  have dist_keep: "distinct (map fst ?keep)"
    using dist by (rule distinct_map_filter)
  have fresh: "next_timer s \<notin> fst ` set ?keep"
    using pending_below keep_sub by force
  have d': "distinct (map fst (timers s'))"
    unfolding timers' using dist_keep fresh by simp
  have r': "task_handle s' t = Some h" if "(h, t) \<in> set (timers s')" for h t
  proof (cases "(h, t) \<in> set ?keep")
    case True
    with reg [of h t] keep_other [of h t] show ?thesis
      unfolding handle' by auto
  next
    case False
    with that have "h = next_timer s" "t = new"
      unfolding timers' by auto
    then show ?thesis
      unfolding handle' by simp
  qed
  have inv': "timers_registered s'"
    unfolding timers_registered_def list_all_iff using d' r' tables'
    by (auto simp: list_all_iff)
  have pending: "pending_redraws s' timeoutId =
           (if task_timeoutId s new = timeoutId then [new] else pending_redraws s timeoutId)"
  proof (cases "task_timeoutId s new = timeoutId")
    case True
    have "filter (\<lambda>(h, t). task_timeoutId s t = timeoutId) ?keep = []"
      using keep_other True by (auto simp: filter_empty_conv)
    with True show ?thesis
      unfolding pending_redraws_def timers'
      by (simp add: task_timeoutId_heap [OF heap'])
  next
    case False
    have "filter (\<lambda>(h, t). task_timeoutId s t = timeoutId) ?keep
            = filter (\<lambda>(h, t). task_timeoutId s t = timeoutId) (timers s)"
      unfolding filter_filter
    proof (rule filter_cong [OF refl])
      fix x
      assume x: "x \<in> set (timers s)"
      obtain h t where ht: "x = (h, t)"
        by (cases x)
      show "((case x of (h, t) \<Rightarrow> Some h \<noteq> task_handle s new)
               \<and> (case x of (h, t) \<Rightarrow> task_timeoutId s t = timeoutId))
            = (case x of (h, t) \<Rightarrow> task_timeoutId s t = timeoutId)"
        using registered_other [OF inv, of h t new] x False by (auto simp: ht)
    qed
    with False show ?thesis
      unfolding pending_redraws_def timers'
      by (simp add: task_timeoutId_heap [OF heap'])
  qed
  from inv' pending show ?thesis ..
qed

lemma requestRedraw_heap [simp]: "heap (requestRedraw s t) = heap s"
  by (cases t) (simp_all add: asyncRenderNode_def asyncRenderEdge_def clearTimeout_def
      setTimeout_def Let_def)

text \<open>One request in a registered state.\<close>

lemma requestRedraw_step:
  assumes inv: "timers_registered s"
  shows "timers_registered (requestRedraw s new)
       \<and> pending_redraws (requestRedraw s new) timeoutId =
           (if schedules new \<and> task_timeoutId s new = timeoutId then [new]
            else pending_redraws s timeoutId)"
proof (cases "schedules new")
  case False
  then obtain e where new: "new = RenderEdgeTask e" and e: "\<not> truthy (source e) \<or> \<not> truthy (target e)"
    by (cases new) auto
  then have "requestRedraw s new = s"
    by (auto simp: asyncRenderEdge_def)
  with inv False show ?thesis
    by simp
next
  case True
  from inv have tabs: "distinct (map snd (nodeTimeouts s) @ map snd (edgeTimeouts s))"
    "list_all (\<lambda>h. h < next_timer s) (map snd (nodeTimeouts s) @ map snd (edgeTimeouts s))"
    by (simp_all add: timers_registered_def)
  have same: "task_handle s t = task_handle s new"
    if "task_timeoutId s t = task_timeoutId s new" for t
    using that by (cases t; cases new) simp_all
  show ?thesis
  proof (cases new)
    case new: (RenderNodeTask node i)
    let ?s' = "asyncRenderNode s node i"
    have h: "task_handle ?s' t =
               (if task_timeoutId s t = task_timeoutId s new then Some (next_timer s)
                else task_handle s t)" for t
      by (cases t) (simp_all add: new asyncRenderNode_unfold update_conv')
    have t': "timers ?s' = filter (\<lambda>(h, t). Some h \<noteq> task_handle s new) (timers s)
                             @ [(next_timer s, new)]"
      by (simp add: new asyncRenderNode_unfold)
    have tabs': "distinct (map snd (nodeTimeouts ?s') @ map snd (edgeTimeouts ?s'))"
      "list_all (\<lambda>h. h < next_timer ?s') (map snd (nodeTimeouts ?s') @ map snd (edgeTimeouts ?s'))"
      using tables_update(1,3) [OF tabs] by (simp_all add: asyncRenderNode_unfold)
    from reschedule_step [OF inv _ t' h same tabs', of timeoutId] True show ?thesis
      by (simp add: new asyncRenderNode_unfold)
  next
    case new: (RenderEdgeTask e)
    with True have tr: "truthy (source e)" "truthy (target e)"
      by simp_all
    note unfold = asyncRenderEdge_unfold [OF tr]
    let ?s' = "asyncRenderEdge s e"
    have h: "task_handle ?s' t =
               (if task_timeoutId s t = task_timeoutId s new then Some (next_timer s)
                else task_handle s t)" for t
      by (cases t) (simp_all add: new unfold update_conv')
    have t': "timers ?s' = filter (\<lambda>(h, t). Some h \<noteq> task_handle s new) (timers s)
                             @ [(next_timer s, new)]"
      by (simp add: new unfold)
    have tabs': "distinct (map snd (nodeTimeouts ?s') @ map snd (edgeTimeouts ?s'))"
      "list_all (\<lambda>h. h < next_timer ?s') (map snd (nodeTimeouts ?s') @ map snd (edgeTimeouts ?s'))"
      using tables_update(2,4) [OF tabs] by (simp_all add: unfold)
    from reschedule_step [OF inv _ t' h same tabs', of timeoutId] True show ?thesis
      by (simp add: new unfold)
  qed
qed

text \<open>Any number of requests in a registered state, with no timeout running in between.\<close>

lemma requestRedraw_fold:
  assumes inv: "timers_registered s"
  shows "timers_registered (fold (\<lambda>t st. requestRedraw st t) reqs s)
       \<and> heap (fold (\<lambda>t st. requestRedraw st t) reqs s) = heap s
       \<and> pending_redraws (fold (\<lambda>t st. requestRedraw st t) reqs s) timeoutId =
           (if filter (\<lambda>t. schedules t \<and> task_timeoutId s t = timeoutId) reqs = []
            then pending_redraws s timeoutId
            else [last (filter (\<lambda>t. schedules t \<and> task_timeoutId s t = timeoutId) reqs)])"
proof (induction reqs rule: rev_induct)
  case Nil
  with inv show ?case by simp
next
  case (snoc t reqs)
  let ?m = "fold (\<lambda>t st. requestRedraw st t) reqs s"
  from snoc have m: "timers_registered ?m" "heap ?m = heap s"
    by simp_all
  have tid: "task_timeoutId ?m t = task_timeoutId s t"
    by (rule task_timeoutId_heap [OF m(2)])
  from requestRedraw_step [OF m(1), of t timeoutId] snoc show ?case
    by (simp add: tid)
qed

text \<open>
  C8, per timeout id. Take a state in which every pending redraw is the one recorded for
  its timeout id (as in the initial state, where nothing is pending; every request keeps
  that property), and any sequence of requests \<^verbatim>\<open>asyncRenderNode\<close> and \<^verbatim>\<open>asyncRenderEdge\<close>, for
  any nodes and edges in any order, with no timeout running in between. Afterwards the
  pending redraws under a timeout id are exactly one, the one of the last request in the
  sequence that has this timeout id, when the sequence has such a request, and they are
  the ones that were pending before when it has none: a request cancels the pending
  redraw with its own timeout id and no other. The timeout id is \<^verbatim>\<open>nodes-\<close> and the key of
  the node, or \<^verbatim>\<open>edges-\<close>, the source, a hyphen and the target of the edge.
\<close>

theorem redraws_coalesced:
  assumes "timers_registered s"
  shows "timers_registered (fold (\<lambda>t st. requestRedraw st t) reqs s)
       \<and> pending_redraws (fold (\<lambda>t st. requestRedraw st t) reqs s) timeoutId =
           (if filter (\<lambda>t. schedules t \<and> task_timeoutId s t = timeoutId) reqs = []
            then pending_redraws s timeoutId
            else [last (filter (\<lambda>t. schedules t \<and> task_timeoutId s t = timeoutId) reqs)])"
  using requestRedraw_fold [OF assms, of reqs timeoutId] by simp

text \<open>
  In the example graph the redraws of the nodes \<open>a\<close> and \<open>b\<close> are requested in turn, twice
  each, and the redraw of the edge from \<open>a\<close> to \<open>b\<close> in between: one redraw is pending for
  each of the three, and none for the node \<open>c\<close>.
\<close>

theorem redraws_coalesced_witness:
  "timers_registered demo_state
   \<and> pending_redraws
        (fold (\<lambda>t st. requestRedraw st t)
           [RenderNodeTask 0 0, RenderNodeTask 1 1, RenderEdgeTask edge_ab,
            RenderNodeTask 0 0, RenderNodeTask 1 1] demo_state) ''nodes-a''
       = [RenderNodeTask 0 0]
   \<and> pending_redraws
        (fold (\<lambda>t st. requestRedraw st t)
           [RenderNodeTask 0 0, RenderNodeTask 1 1, RenderEdgeTask edge_ab,
            RenderNodeTask 0 0, RenderNodeTask 1 1] demo_state) ''nodes-b''
       = [RenderNodeTask 1 1]
   \<and> pending_redraws
        (fold (\<lambda>t st. requestRedraw st t)
           [RenderNodeTask 0 0, RenderNodeTask 1 1, RenderEdgeTask edge_ab,
            RenderNodeTask 0 0, RenderNodeTask 1 1] demo_state) ''edges-a-b''
       = [RenderEdgeTask edge_ab]
   \<and> pending_redraws
        (fold (\<lambda>t st. requestRedraw st t)
           [RenderNodeTask 0 0, RenderNodeTask 1 1, RenderEdgeTask edge_ab,
            RenderNodeTask 0 0, RenderNodeTask 1 1] demo_state) ''nodes-c''
       = []"
proof -
  let ?reqs = "[RenderNodeTask 0 0, RenderNodeTask 1 1, RenderEdgeTask edge_ab,
                RenderNodeTask 0 0, RenderNodeTask 1 1]"
  have inv: "timers_registered demo_state"
    by (simp add: timers_registered_def demo_state_def)
  have none: "pending_redraws demo_state ''nodes-c'' = []"
    by (simp add: pending_redraws_def demo_state_def)
  have ids: "task_timeoutId demo_state (RenderNodeTask 0 0) = ''nodes-a''"
    "task_timeoutId demo_state (RenderNodeTask 1 1) = ''nodes-b''"
    "task_timeoutId demo_state (RenderEdgeTask edge_ab) = ''edges-a-b''"
    "schedules (RenderEdgeTask edge_ab)"
    by (simp_all add: demo_state_def demo_heap_def edge_ab_def tmpl_def truthy_def)
  have ids: "nkey (heap demo_state 0) = ''a''" "nkey (heap demo_state (Suc 0)) = ''b''"
    "tmpl (source edge_ab) = ''a''" "tmpl (target edge_ab) = ''b''"
    "truthy (source edge_ab)" "truthy (target edge_ab)"
    by (simp_all add: demo_state_def demo_heap_def edge_ab_def tmpl_def truthy_def)
  have fa: "filter (\<lambda>t. schedules t \<and> task_timeoutId demo_state t = ''nodes-a'') ?reqs
              = [RenderNodeTask 0 0, RenderNodeTask 0 0]"
    and fb: "filter (\<lambda>t. schedules t \<and> task_timeoutId demo_state t = ''nodes-b'') ?reqs
              = [RenderNodeTask 1 1, RenderNodeTask 1 1]"
    and fe: "filter (\<lambda>t. schedules t \<and> task_timeoutId demo_state t = ''edges-a-b'') ?reqs
              = [RenderEdgeTask edge_ab]"
    and fc: "filter (\<lambda>t. schedules t \<and> task_timeoutId demo_state t = ''nodes-c'') ?reqs = []"
    by (simp_all add: ids)
  note inst = redraws_coalesced [OF inv, of ?reqs]
  have a: "pending_redraws (fold (\<lambda>t st. requestRedraw st t) ?reqs demo_state) ''nodes-a''
             = [RenderNodeTask 0 0]"
    using inst [of "''nodes-a''"] unfolding fa by simp
  have b: "pending_redraws (fold (\<lambda>t st. requestRedraw st t) ?reqs demo_state) ''nodes-b''
             = [RenderNodeTask 1 1]"
    using inst [of "''nodes-b''"] unfolding fb by simp
  have e: "pending_redraws (fold (\<lambda>t st. requestRedraw st t) ?reqs demo_state) ''edges-a-b''
             = [RenderEdgeTask edge_ab]"
    using inst [of "''edges-a-b''"] unfolding fe by simp
  have c: "pending_redraws (fold (\<lambda>t st. requestRedraw st t) ?reqs demo_state) ''nodes-c'' = []"
    using inst [of "''nodes-c''"] none unfolding fc by simp
  from inv a b e c show ?thesis
    by (intro conjI)
qed

text \<open>
  The claim C8 as stated, per entity, fails for two edges whose source and target join
  to one string. The edge from the node \<open>a-b\<close> to the node \<open>c\<close> and the edge from the node
  \<open>a\<close> to the node \<open>b-c\<close> have the timeout id \<^verbatim>\<open>edges-a-b-c\<close> in common: the request for the
  second cancels the pending redraw of the first, and no redraw of the first edge is left
  after one request for each.
\<close>

theorem redraws_coalesced_counterexample:
  "source \<lparr>oid = 2, source = Some ''a-b'', target = Some ''c'', targetPosition = None\<rparr>
     \<noteq> source \<lparr>oid = 3, source = Some ''a'', target = Some ''b-c'', targetPosition = None\<rparr>
   \<and> timers (asyncRenderEdge demo_state
        \<lparr>oid = 2, source = Some ''a-b'', target = Some ''c'', targetPosition = None\<rparr>)
       = [(0, RenderEdgeTask \<lparr>oid = 2, source = Some ''a-b'', target = Some ''c'', targetPosition = None\<rparr>)]
   \<and> timers (asyncRenderEdge
        (asyncRenderEdge demo_state
           \<lparr>oid = 2, source = Some ''a-b'', target = Some ''c'', targetPosition = None\<rparr>)
        \<lparr>oid = 3, source = Some ''a'', target = Some ''b-c'', targetPosition = None\<rparr>)
       = [(1, RenderEdgeTask \<lparr>oid = 3, source = Some ''a'', target = Some ''b-c'', targetPosition = None\<rparr>)]"
  by (simp add: asyncRenderEdge_def clearTimeout_def setTimeout_def Let_def truthy_def tmpl_def
      demo_state_def)
end
